theory Spec2Isabelle
  imports Main
begin

section \<open>Errors, results and the database connection\<close>

text \<open>
  The provider's hooks return a Go \<open>error\<close>. Three kinds of error value occur:
  the sentinel \<open>sql.ErrNoRows\<close> (compared by identity in the source), the
  errors built by the repository's own \<open>NewError\<close> (type \<open>errorString\<close>), and any
  other error coming from \<open>database/sql\<close> or the driver.
\<close>

datatype go_error = ErrNoRows | NewError string | SqlError string

text \<open>A hook either returns or panics (\<open>panic(txErr)\<close> when \<open>Begin\<close> fails).\<close>

datatype 'a outcome = Returned 'a | Panicked go_error

text \<open>
  Calls made on the connection. \<open>DB\<close> is the shared \<open>*sql.DB\<close>, \<open>TX\<close> the
  transaction handle obtained from \<open>Begin\<close>.
\<close>

datatype handle = DB | TX

datatype sqlarg = IntArg int | StrArg string

datatype sqlval = IntVal int | StrVal string | BoolVal bool

datatype call =
    Begin
  | QueryRow handle string "sqlarg list"
  | Exec handle string
  | Rollback
  | Commit

text \<open>
  The warehouse is outside the program: it is a parameter that answers every call, the
  answer depending on the calls made so far. A query answers with an error
  (\<open>ErrNoRows\<close> when no row matches) or with the values of the first row, as \<open>Scan\<close>
  converts them. Every hook takes the calls made so far and returns them extended by its
  own calls, in order. The \<open>log.Print\<close> calls of the source change no result and are left
  out. A Go \<open>int\<close> attribute is an \<open>int\<close> here: the hooks only print and pass it on.
\<close>

record conn =
  on_begin :: "call list \<Rightarrow> go_error option"
  on_exec :: "call list \<Rightarrow> string \<Rightarrow> go_error option"
  on_query :: "call list \<Rightarrow> string \<Rightarrow> sqlarg list \<Rightarrow> go_error + sqlval list"
  on_rollback :: "call list \<Rightarrow> go_error option"
  on_commit :: "call list \<Rightarrow> go_error option"

definition DB_Begin :: "conn \<Rightarrow> call list \<Rightarrow> go_error option \<times> call list" where
  "DB_Begin c tr = (on_begin c tr, tr @ [Begin])"

definition Tx_Exec :: "conn \<Rightarrow> string \<Rightarrow> call list \<Rightarrow> go_error option \<times> call list" where
  "Tx_Exec c q tr = (on_exec c tr q, tr @ [Exec TX q])"

definition Tx_Rollback :: "conn \<Rightarrow> call list \<Rightarrow> go_error option \<times> call list" where
  "Tx_Rollback c tr = (on_rollback c tr, tr @ [Rollback])"

definition Tx_Commit :: "conn \<Rightarrow> call list \<Rightarrow> go_error option \<times> call list" where
  "Tx_Commit c tr = (on_commit c tr, tr @ [Commit])"

definition Query_Row ::
  "conn \<Rightarrow> handle \<Rightarrow> string \<Rightarrow> sqlarg list \<Rightarrow> call list \<Rightarrow> (go_error + sqlval list) \<times> call list" where
  "Query_Row c h q args tr = (on_query c tr q args, tr @ [QueryRow h q args])"

text \<open>
  \<open>Row.Scan\<close> into typed destinations: the query's error is passed on; a row of the
  wrong shape is a scan error, which is an error other than \<open>ErrNoRows\<close>.
\<close>

definition scan_error :: go_error where
  "scan_error = SqlError ''sql: Scan error''"

fun Scan_string :: "go_error + sqlval list \<Rightarrow> go_error + string" where
  "Scan_string (Inl e) = Inl e"
| "Scan_string (Inr [StrVal s]) = Inr s"
| "Scan_string (Inr vs) = Inl scan_error"

fun Scan_string_int :: "go_error + sqlval list \<Rightarrow> go_error + string \<times> int" where
  "Scan_string_int (Inl e) = Inl e"
| "Scan_string_int (Inr [StrVal s, IntVal i]) = Inr (s, i)"
| "Scan_string_int (Inr vs) = Inl scan_error"

fun Scan_bool2 :: "go_error + sqlval list \<Rightarrow> go_error + bool \<times> bool" where
  "Scan_bool2 (Inl e) = Inl e"
| "Scan_bool2 (Inr [BoolVal a, BoolVal b]) = Inr (a, b)"
| "Scan_bool2 (Inr vs) = Inl scan_error"

fun Scan_bool5 ::
  "go_error + sqlval list \<Rightarrow> go_error + bool \<times> bool \<times> bool \<times> bool \<times> bool" where
  "Scan_bool5 (Inl e) = Inl e"
| "Scan_bool5 (Inr [BoolVal a, BoolVal b, BoolVal c, BoolVal d, BoolVal e]) = Inr (a, b, c, d, e)"
| "Scan_bool5 (Inr vs) = Inl scan_error"

section \<open>Resource data\<close>

text \<open>
  \<open>schema.ResourceData\<close> of the plugin SDK, as far as the hooks use it: the
  identifier, the two integer attributes, and the boolean attributes in three layers:
  the prior state, the planned (desired) values, and the values written by \<open>d.Set\<close>.
  \<open>d.Get\<close> reads the written value if there is one and the planned value otherwise;
  \<open>d.HasChange\<close> compares the prior state with the planned value.
\<close>

record ResourceData =
  res_id :: string
  schema_id :: int
  group_id :: int
  prior :: "string \<Rightarrow> bool"
  planned :: "string \<Rightarrow> bool"
  written :: "string \<Rightarrow> bool option"

definition Get_bool :: "ResourceData \<Rightarrow> string \<Rightarrow> bool" where
  "Get_bool d k = (case written d k of Some v \<Rightarrow> v | None \<Rightarrow> planned d k)"

text \<open>\<open>GetOk\<close>: the value, and whether it is set to a non-zero value.\<close>

definition GetOk_bool :: "ResourceData \<Rightarrow> string \<Rightarrow> bool \<times> bool" where
  "GetOk_bool d k = (Get_bool d k, Get_bool d k \<noteq> False)"

definition Set_bool :: "ResourceData \<Rightarrow> string \<Rightarrow> bool \<Rightarrow> ResourceData" where
  "Set_bool d k v = d\<lparr>written := (written d)(k \<mapsto> v)\<rparr>"

definition HasChange :: "ResourceData \<Rightarrow> string \<Rightarrow> bool" where
  "HasChange d k = (prior d k \<noteq> planned d k)"

definition SetId :: "ResourceData \<Rightarrow> string \<Rightarrow> ResourceData" where
  "SetId d s = d\<lparr>res_id := s\<rparr>"

text \<open>\<open>fmt.Sprint\<close> of an \<open>int\<close>: its decimal digits, with a minus sign when negative.\<close>

definition digit_char :: "nat \<Rightarrow> char" where
  "digit_char n = ''0123456789'' ! n"

fun decimal :: "nat \<Rightarrow> string" where
  "decimal n = (if n < 10 then [digit_char n] else decimal (n div 10) @ [digit_char (n mod 10)])"

declare decimal.simps [simp del]

definition Sprint :: "int \<Rightarrow> string" where
  "Sprint i = (if i < 0 then ''-'' @ decimal (nat (- i)) else decimal (nat i))"

text \<open>\<open>strings.Join\<close>.\<close>

fun Join :: "string list \<Rightarrow> string \<Rightarrow> string" where
  "Join [] sep = []"
| "Join [x] sep = x"
| "Join (x # y # ys) sep = x @ sep @ Join (y # ys) sep"

section \<open>The SQL texts\<close>

text \<open>The query texts of the source, with each run of white space written as one space.\<close>

definition schemaExistenceQuery :: string where
  "schemaExistenceQuery = ''SELECT nspname FROM pg_namespace WHERE oid = $1''"

definition privilegeExistenceQuery :: string where
  "privilegeExistenceQuery =
   ''select distinct id from ( select nsp.oid || '_' || pu.grosysid as id from pg_group pu, pg_default_acl acl, pg_namespace nsp where acl.defaclnamespace = nsp.oid and array_to_string(acl.defaclacl, '|') LIKE '%' || 'group ' || pu.groname || '=%' and nsp.oid || '_' || pu.grosysid = $1 union select nsp.oid || '_' || pu.grosysid as id from pg_group pu, pg_namespace nsp where array_to_string(nsp.nspacl, '|') LIKE '%' || 'group ' || pu.groname || '=%' and nsp.oid || '_' || pu.grosysid = $1 )''"

definition schemaInfoQuery :: string where
  "schemaInfoQuery = ''SELECT nspname, nspowner FROM pg_namespace WHERE oid = $1''"

definition hasPrivilegeQuery :: string where
  "hasPrivilegeQuery =
   '' select cast(bool_or(decode(charindex('r',split_part(split_part(array_to_string(defaclacl, '|'),'group ' || pu.groname,2 ) ,'/',1)),0,0,1)) as int) as select, cast(bool_or(decode(charindex('w',split_part(split_part(array_to_string(defaclacl, '|'),'group ' || pu.groname,2 ) ,'/',1)),0,0,1)) as int) as update, cast(bool_or(decode(charindex('a',split_part(split_part(array_to_string(defaclacl, '|'),'group ' || pu.groname,2 ) ,'/',1)),0,0,1)) as int) as insert, cast(bool_or(decode(charindex('d',split_part(split_part(array_to_string(defaclacl, '|'),'group ' || pu.groname,2 ) ,'/',1)),0,0,1)) as int) as delete, cast(bool_or(decode(charindex('x',split_part(split_part(array_to_string(defaclacl, '|'),'group ' || pu.groname,2 ) ,'/',1)),0,0,1)) as int) as references from pg_group pu, pg_default_acl acl, pg_namespace nsp where acl.defaclnamespace = nsp.oid and array_to_string(acl.defaclacl, '|') LIKE '%' || 'group ' || pu.groname || '=%' and nsp.oid = $1 and pu.grosysid = $2''"

definition hasSchemaPrivilegeQuery :: string where
  "hasSchemaPrivilegeQuery =
   '' select case when charindex('U',split_part(split_part(array_to_string(nspacl, '|'), 'group ' || pu.groname,2 ) ,'/',1)) > 0 then 1 else 0 end as usage, case when charindex('C',split_part(split_part(array_to_string(nspacl, '|'),'group ' || pu.groname,2 ) ,'/',1)) > 0 then 1 else 0 end as create from pg_group pu, pg_namespace nsp where array_to_string(nsp.nspacl, '|') LIKE '%' || 'group ' || pu.groname || '=%' and nsp.oid = $1 and pu.grosysid = $2''"

text \<open>
  Modelled from the spec: \<open>GetGroupNameForGroupId\<close> is called by the hooks but its
  file is not among the sources. The spec says of it: "GroupInfo: (name) resolved from a
  group identifier; same re-resolution rule" and lists a lookup that does not resolve as
  an error that is surfaced. It is modelled as one query on the given handle that scans
  a name, like \<open>GetSchemaInfoForSchemaId\<close>; the query text is not known and is named only.
\<close>

definition groupNameQuery :: string where
  "groupNameQuery = ''<group name by group id>''"

definition GetGroupNameForGroupId ::
  "conn \<Rightarrow> handle \<Rightarrow> int \<Rightarrow> call list \<Rightarrow> (string \<times> go_error option) \<times> call list" where
  "GetGroupNameForGroupId c h groupId tr =
     (case Query_Row c h groupNameQuery [IntArg groupId] tr of (r, tr') \<Rightarrow>
        (case Scan_string r of
           Inl err \<Rightarrow> (('''', Some err), tr')
         | Inr name \<Rightarrow> ((name, None), tr')))"

section \<open>The schema resource\<close>

definition resourceRedshiftSchemaExists ::
  "conn \<Rightarrow> ResourceData \<Rightarrow> call list \<Rightarrow> (bool \<times> go_error option) \<times> call list" where
  "resourceRedshiftSchemaExists c d tr =
     (case Query_Row c DB schemaExistenceQuery [StrArg (res_id d)] tr of (r, tr') \<Rightarrow>
        (case Scan_string r of
           Inl err \<Rightarrow> (if err = ErrNoRows then ((False, None), tr') else ((False, Some err), tr'))
         | Inr name \<Rightarrow> ((True, None), tr')))"

definition GetSchemaInfoForSchemaId ::
  "conn \<Rightarrow> handle \<Rightarrow> int \<Rightarrow> call list \<Rightarrow> (string \<times> int \<times> go_error option) \<times> call list" where
  "GetSchemaInfoForSchemaId c h schemaId tr =
     (case Query_Row c h schemaInfoQuery [IntArg schemaId] tr of (r, tr') \<Rightarrow>
        (case Scan_string_int r of
           Inl err \<Rightarrow>
             (if err = ErrNoRows then (('''', - 1, Some err), tr')
              else (('''', - 1, Some err), tr'))
         | Inr (name, owner) \<Rightarrow> ((name, owner, None), tr')))"

section \<open>The schema-group privilege resource\<close>

definition resourceRedshiftSchemaGroupPrivilegeExists ::
  "conn \<Rightarrow> ResourceData \<Rightarrow> call list \<Rightarrow> (bool \<times> go_error option) \<times> call list" where
  "resourceRedshiftSchemaGroupPrivilegeExists c d tr =
     (case Query_Row c DB privilegeExistenceQuery [StrArg (res_id d)] tr of (r, tr') \<Rightarrow>
        (case Scan_string r of
           Inl err \<Rightarrow> (if err = ErrNoRows then ((False, None), tr') else ((False, Some err), tr'))
         | Inr privilegeId \<Rightarrow> ((True, None), tr')))"

definition validateGrants :: "ResourceData \<Rightarrow> string list" where
  "validateGrants d =
     (let grants = [];
          grants = (case GetOk_bool d ''select'' of (v, ok) \<Rightarrow>
                      if ok \<and> v then grants @ [''SELECT''] else grants);
          grants = (case GetOk_bool d ''insert'' of (v, ok) \<Rightarrow>
                      if ok \<and> v then grants @ [''INSERT''] else grants);
          grants = (case GetOk_bool d ''update'' of (v, ok) \<Rightarrow>
                      if ok \<and> v then grants @ [''UPDATE''] else grants);
          grants = (case GetOk_bool d ''delete'' of (v, ok) \<Rightarrow>
                      if ok \<and> v then grants @ [''DELETE''] else grants);
          grants = (case GetOk_bool d ''references'' of (v, ok) \<Rightarrow>
                      if ok \<and> v then grants @ [''REFERENCES''] else grants)
      in grants)"

definition validateSchemaGrants :: "ResourceData \<Rightarrow> string list" where
  "validateSchemaGrants d =
     (let grants = [];
          grants = (case GetOk_bool d ''create'' of (v, ok) \<Rightarrow>
                      if ok \<and> v then grants @ [''CREATE''] else grants);
          grants = (case GetOk_bool d ''usage'' of (v, ok) \<Rightarrow>
                      if ok \<and> v then grants @ [''USAGE''] else grants)
      in grants)"

definition isSystemSchema :: "int \<Rightarrow> bool" where
  "isSystemSchema schemaOwner = (schemaOwner = 1)"

text \<open>
  The recurring error exit of the hooks: roll back (a rollback error is only logged),
  then return the given error.
\<close>

definition rollback_return ::
  "conn \<Rightarrow> go_error \<Rightarrow> ResourceData \<Rightarrow> call list
     \<Rightarrow> go_error option outcome \<times> ResourceData \<times> call list" where
  "rollback_return c err d tr = (Returned (Some err), d, snd (Tx_Rollback c tr))"

text \<open>
  The test \<open>err != nil && err != sql.ErrNoRows\<close> after a \<open>Scan\<close>: either the error
  that passes the test, or the values the destinations hold afterwards (their zero
  values when no row was found).
\<close>

definition scanned_or_zero :: "'a \<Rightarrow> go_error + 'a \<Rightarrow> go_error + 'a" where
  "scanned_or_zero zero r =
     (case r of
        Inl err \<Rightarrow> (if err \<noteq> ErrNoRows then Inl err else Inr zero)
      | Inr vs \<Rightarrow> Inr vs)"

definition readRedshiftSchemaGroupPrivilege ::
  "conn \<Rightarrow> ResourceData \<Rightarrow> call list \<Rightarrow> go_error option \<times> ResourceData \<times> call list" where
  "readRedshiftSchemaGroupPrivilege c d tr =
     (case Query_Row c TX hasPrivilegeQuery [IntArg (schema_id d), IntArg (group_id d)] tr of
        (r1, tr1) \<Rightarrow>
     (case scanned_or_zero (False, False, False, False, False) (Scan_bool5 r1) of
        Inl privilegesError \<Rightarrow> (Some privilegesError, d, snd (Tx_Rollback c tr1))
      | Inr (selectPrivilege, updatePrivilege, insertPrivilege, deletePrivilege,
             referencesPrivilege) \<Rightarrow>
     (case Query_Row c TX hasSchemaPrivilegeQuery
             [IntArg (schema_id d), IntArg (group_id d)] tr1 of
        (r2, tr2) \<Rightarrow>
     (case scanned_or_zero (False, False) (Scan_bool2 r2) of
        Inl schemaPrivilegesError \<Rightarrow> (Some schemaPrivilegesError, d, snd (Tx_Rollback c tr2))
      | Inr (usagePrivilege, createPrivilege) \<Rightarrow>
          (let d = Set_bool d ''usage'' usagePrivilege;
               d = Set_bool d ''create'' createPrivilege;
               d = Set_bool d ''select'' selectPrivilege;
               d = Set_bool d ''insert'' insertPrivilege;
               d = Set_bool d ''update'' updatePrivilege;
               d = Set_bool d ''delete'' deletePrivilege;
               d = Set_bool d ''references'' referencesPrivilege
           in (None, d, tr2))))))"

definition resourceRedshiftSchemaGroupPrivilegeCreate ::
  "conn \<Rightarrow> ResourceData \<Rightarrow> call list
     \<Rightarrow> go_error option outcome \<times> ResourceData \<times> call list" where
  "resourceRedshiftSchemaGroupPrivilegeCreate c d tr =
     (case DB_Begin c tr of
        (Some txErr, tr0) \<Rightarrow> (Panicked txErr, d, tr0)
      | (None, tr0) \<Rightarrow>
     (let grants = validateGrants d; schemaGrants = validateSchemaGrants d in
      if length grants = 0 \<and> length schemaGrants = 0
      then rollback_return c (NewError ''Must have at least 1 privilege'') d tr0
      else
     (case GetSchemaInfoForSchemaId c TX (schema_id d) tr0 of
        ((schemaName, schemaOwner, Some schemaErr), tr1) \<Rightarrow> rollback_return c schemaErr d tr1
      | ((schemaName, schemaOwner, None), tr1) \<Rightarrow>
      if isSystemSchema schemaOwner
      then rollback_return c
             (NewError (''Privilege creation is not allowed for system schemas, schema=''
                          @ schemaName)) d tr1
      else
     (case GetGroupNameForGroupId c TX (group_id d) tr1 of
        ((groupName, Some groupErr), tr2) \<Rightarrow> rollback_return c groupErr d tr2
      | ((groupName, None), tr2) \<Rightarrow>
     (case (if 0 < length grants
            then (case Tx_Exec c (''GRANT '' @ Join grants '','' @ '' ON ALL TABLES IN SCHEMA ''
                                    @ schemaName @ '' TO GROUP '' @ groupName) tr2 of
                    (Some err, t) \<Rightarrow> (Some err, t)
                  | (None, t) \<Rightarrow>
                      Tx_Exec c (''ALTER DEFAULT PRIVILEGES IN SCHEMA '' @ schemaName
                                   @ '' GRANT '' @ Join grants '','' @ '' ON TABLES TO GROUP ''
                                   @ groupName) t)
            else (None, tr2)) of
        (Some err, tr3) \<Rightarrow> rollback_return c err d tr3
      | (None, tr3) \<Rightarrow>
     (case (if 0 < length schemaGrants
            then Tx_Exec c (''GRANT '' @ Join schemaGrants '','' @ '' ON SCHEMA ''
                              @ schemaName @ '' TO GROUP '' @ groupName) tr3
            else (None, tr3)) of
        (Some err, tr4) \<Rightarrow> rollback_return c err d tr4
      | (None, tr4) \<Rightarrow>
     (let d1 = SetId d (Sprint (schema_id d) @ ''_'' @ Sprint (group_id d)) in
      case readRedshiftSchemaGroupPrivilege c d1 tr4 of
        (Some readErr, d2, tr5) \<Rightarrow> rollback_return c readErr d2 tr5
      | (None, d2, tr5) \<Rightarrow>
     (case Tx_Commit c tr5 of
        (Some commitErr, tr6) \<Rightarrow> (Returned (Some commitErr), d2, tr6)
      | (None, tr6) \<Rightarrow> (Returned None, d2, tr6)))))))))"

definition resourceRedshiftSchemaGroupPrivilegeRead ::
  "conn \<Rightarrow> ResourceData \<Rightarrow> call list
     \<Rightarrow> go_error option outcome \<times> ResourceData \<times> call list" where
  "resourceRedshiftSchemaGroupPrivilegeRead c d tr =
     (case DB_Begin c tr of
        (Some txErr, tr0) \<Rightarrow> (Panicked txErr, d, tr0)
      | (None, tr0) \<Rightarrow>
     (case readRedshiftSchemaGroupPrivilege c d tr0 of
        (Some err, d1, tr1) \<Rightarrow> rollback_return c err d1 tr1
      | (None, d1, tr1) \<Rightarrow>
     (case Tx_Commit c tr1 of
        (Some commitErr, tr2) \<Rightarrow> (Returned (Some commitErr), d1, tr2)
      | (None, tr2) \<Rightarrow> (Returned None, d1, tr2))))"

definition updatePrivilege ::
  "conn \<Rightarrow> ResourceData \<Rightarrow> string \<Rightarrow> string \<Rightarrow> string \<Rightarrow> string \<Rightarrow> call list
     \<Rightarrow> go_error option \<times> call list" where
  "updatePrivilege c d attribute privilege schemaName groupName tr =
     (if \<not> HasChange d attribute then (None, tr)
      else if Get_bool d attribute
      then (case Tx_Exec c (''GRANT '' @ privilege @ '' ON ALL TABLES IN SCHEMA '' @ schemaName
                              @ '' TO  GROUP '' @ groupName) tr of
              (Some err, t) \<Rightarrow> (Some err, t)
            | (None, t) \<Rightarrow>
            (case Tx_Exec c (''ALTER DEFAULT PRIVILEGES IN SCHEMA '' @ schemaName @ '' GRANT ''
                               @ privilege @ '' ON TABLES TO GROUP '' @ groupName) t of
               (Some err, t') \<Rightarrow> (Some err, t')
             | (None, t') \<Rightarrow> (None, t')))
      else (case Tx_Exec c (''REVOKE '' @ privilege @ '' ON ALL TABLES IN SCHEMA '' @ schemaName
                              @ '' FROM GROUP '' @ groupName) tr of
              (Some err, t) \<Rightarrow> (Some err, t)
            | (None, t) \<Rightarrow>
            (case Tx_Exec c (''ALTER DEFAULT PRIVILEGES IN SCHEMA '' @ schemaName @ '' REVOKE ''
                               @ privilege @ '' ON TABLES FROM GROUP '' @ groupName) t of
               (Some err, t') \<Rightarrow> (Some err, t')
             | (None, t') \<Rightarrow> (None, t'))))"

definition updateSchemaPrivilege ::
  "conn \<Rightarrow> ResourceData \<Rightarrow> string \<Rightarrow> string \<Rightarrow> string \<Rightarrow> string \<Rightarrow> call list
     \<Rightarrow> go_error option \<times> call list" where
  "updateSchemaPrivilege c d attribute privilege schemaName groupName tr =
     (if \<not> HasChange d attribute then (None, tr)
      else if Get_bool d attribute
      then (case Tx_Exec c (''GRANT '' @ privilege @ '' ON SCHEMA '' @ schemaName
                              @ '' TO  GROUP '' @ groupName) tr of
              (Some err, t) \<Rightarrow> (Some err, t)
            | (None, t) \<Rightarrow> (None, t))
      else (case Tx_Exec c (''REVOKE '' @ privilege @ '' ON SCHEMA '' @ schemaName
                              @ '' FROM GROUP '' @ groupName) tr of
              (Some err, t) \<Rightarrow> (Some err, t)
            | (None, t) \<Rightarrow> (None, t)))"

definition resourceRedshiftSchemaGroupPrivilegeUpdate ::
  "conn \<Rightarrow> ResourceData \<Rightarrow> call list
     \<Rightarrow> go_error option outcome \<times> ResourceData \<times> call list" where
  "resourceRedshiftSchemaGroupPrivilegeUpdate c d tr =
     (case DB_Begin c tr of
        (Some txErr, tr0) \<Rightarrow> (Panicked txErr, d, tr0)
      | (None, tr0) \<Rightarrow>
     (let grants = validateGrants d; schemaGrants = validateSchemaGrants d in
      if length grants = 0 \<and> length schemaGrants = 0
      then rollback_return c (NewError ''Must have at least 1 privilege'') d tr0
      else
     (case GetSchemaInfoForSchemaId c TX (schema_id d) tr0 of
        ((schemaName, schemaOwner, Some schemaErr), tr1) \<Rightarrow> rollback_return c schemaErr d tr1
      | ((schemaName, schemaOwner, None), tr1) \<Rightarrow>
     (case GetGroupNameForGroupId c TX (group_id d) tr1 of
        ((groupName, Some groupErr), tr2) \<Rightarrow> rollback_return c groupErr d tr2
      | ((groupName, None), tr2) \<Rightarrow>
     (case updatePrivilege c d ''select'' ''SELECT'' schemaName groupName tr2 of
        (Some err, t1) \<Rightarrow> rollback_return c err d t1
      | (None, t1) \<Rightarrow>
     (case updatePrivilege c d ''insert'' ''INSERT'' schemaName groupName t1 of
        (Some err, t2) \<Rightarrow> rollback_return c err d t2
      | (None, t2) \<Rightarrow>
     (case updatePrivilege c d ''update'' ''UPDATE'' schemaName groupName t2 of
        (Some err, t3) \<Rightarrow> rollback_return c err d t3
      | (None, t3) \<Rightarrow>
     (case updatePrivilege c d ''delete'' ''DELETE'' schemaName groupName t3 of
        (Some err, t4) \<Rightarrow> rollback_return c err d t4
      | (None, t4) \<Rightarrow>
     (case updatePrivilege c d ''references'' ''REFERENCES'' schemaName groupName t4 of
        (Some err, t5) \<Rightarrow> rollback_return c err d t5
      | (None, t5) \<Rightarrow>
     (case updateSchemaPrivilege c d ''usage'' ''USAGE'' schemaName groupName t5 of
        (Some err, t6) \<Rightarrow> rollback_return c err d t6
      | (None, t6) \<Rightarrow>
     (case updateSchemaPrivilege c d ''create'' ''CREATE'' schemaName groupName t6 of
        (Some err, t7) \<Rightarrow> rollback_return c err d t7
      | (None, t7) \<Rightarrow>
     (case Tx_Commit c t7 of
        (Some commitErr, t8) \<Rightarrow> (Returned (Some commitErr), d, t8)
      | (None, t8) \<Rightarrow> (Returned None, d, t8)))))))))))))"

definition resourceRedshiftSchemaGroupPrivilegeDelete ::
  "conn \<Rightarrow> ResourceData \<Rightarrow> call list
     \<Rightarrow> go_error option outcome \<times> ResourceData \<times> call list" where
  "resourceRedshiftSchemaGroupPrivilegeDelete c d tr =
     (case DB_Begin c tr of
        (Some txErr, tr0) \<Rightarrow> (Panicked txErr, d, tr0)
      | (None, tr0) \<Rightarrow>
     (case GetSchemaInfoForSchemaId c TX (schema_id d) tr0 of
        ((schemaName, schemaOwner, Some schemaErr), tr1) \<Rightarrow> rollback_return c schemaErr d tr1
      | ((schemaName, schemaOwner, None), tr1) \<Rightarrow>
     (case GetGroupNameForGroupId c TX (group_id d) tr1 of
        ((groupName, Some groupErr), tr2) \<Rightarrow> rollback_return c groupErr d tr2
      | ((groupName, None), tr2) \<Rightarrow>
     (case Tx_Exec c (''REVOKE ALL ON  ALL TABLES IN SCHEMA '' @ schemaName @ '' FROM GROUP ''
                        @ groupName) tr2 of
        (Some err, t1) \<Rightarrow> rollback_return c err d t1
      | (None, t1) \<Rightarrow>
     (case Tx_Exec c (''ALTER DEFAULT PRIVILEGES IN SCHEMA '' @ schemaName
                        @ '' REVOKE ALL ON TABLES FROM GROUP '' @ groupName) t1 of
        (Some err, t2) \<Rightarrow> rollback_return c err d t2
      | (None, t2) \<Rightarrow>
     (case Tx_Exec c (''REVOKE ALL ON SCHEMA '' @ schemaName @ '' FROM GROUP '' @ groupName) t2 of
        (Some err, t3) \<Rightarrow> rollback_return c err d t3
      | (None, t3) \<Rightarrow>
     (case Tx_Commit c t3 of
        (Some commitErr, t4) \<Rightarrow> (Returned (Some commitErr), d, t4)
      | (None, t4) \<Rightarrow> (Returned None, d, t4))))))))"

section \<open>Reading traces\<close>

text \<open>The statements passed to \<open>Exec\<close> in a trace, in order.\<close>

fun execs :: "call list \<Rightarrow> string list" where
  "execs [] = []"
| "execs (Exec h q # tr) = q # execs tr"
| "execs (x # tr) = execs tr"

text \<open>
  Every \<open>Exec\<close> among the calls \<open>es\<close>, made after the history \<open>tr\<close>, was answered
  without error.
\<close>

fun exec_ok :: "conn \<Rightarrow> call list \<Rightarrow> call list \<Rightarrow> bool" where
  "exec_ok c tr [] = True"
| "exec_ok c tr (Exec h q # es) = (on_exec c tr q = None \<and> exec_ok c (tr @ [Exec h q]) es)"
| "exec_ok c tr (x # es) = exec_ok c (tr @ [x]) es"

text \<open>
  Running a list of statements in order on the transaction and stopping at the first
  error: the shape shared by the statement phases of the hooks.
\<close>

fun run_execs :: "conn \<Rightarrow> string list \<Rightarrow> call list \<Rightarrow> go_error option \<times> call list" where
  "run_execs c [] tr = (None, tr)"
| "run_execs c (q # qs) tr =
     (case on_exec c tr q of
        Some err \<Rightarrow> (Some err, tr @ [Exec TX q])
      | None \<Rightarrow> run_execs c qs (tr @ [Exec TX q]))"

text \<open>A reply to a read-back query that the reader accepts: a row, or no row.\<close>

definition accepted :: "go_error + 'a \<Rightarrow> bool" where
  "accepted r = (case r of Inl err \<Rightarrow> err = ErrNoRows | Inr v \<Rightarrow> True)"

section \<open>The statements of a reconciliation, from the flags alone\<close>

text \<open>
  The statement lists below are written from the flag values only, in the words of the
  specification's Statement Builder; the theorems compare them with what the hooks execute.
\<close>

definition table_flags :: "(string \<times> string) list" where
  "table_flags = [(''select'', ''SELECT''), (''insert'', ''INSERT''), (''update'', ''UPDATE''),
                  (''delete'', ''DELETE''), (''references'', ''REFERENCES'')]"

definition all_flags :: "string list" where
  "all_flags = [''select'', ''insert'', ''update'', ''delete'', ''references'', ''usage'', ''create'']"

text \<open>
  A changed table-level flag: the statement on all current tables and its default-privilege
  mirror, as GRANT when the target is true and as REVOKE when it is false.
\<close>

definition table_flag_statements :: "bool \<Rightarrow> string \<Rightarrow> string \<Rightarrow> string \<Rightarrow> string list" where
  "table_flag_statements target privilege s g =
     (if target
      then [''GRANT '' @ privilege @ '' ON ALL TABLES IN SCHEMA '' @ s @ '' TO  GROUP '' @ g,
            ''ALTER DEFAULT PRIVILEGES IN SCHEMA '' @ s @ '' GRANT '' @ privilege
              @ '' ON TABLES TO GROUP '' @ g]
      else [''REVOKE '' @ privilege @ '' ON ALL TABLES IN SCHEMA '' @ s @ '' FROM GROUP '' @ g,
            ''ALTER DEFAULT PRIVILEGES IN SCHEMA '' @ s @ '' REVOKE '' @ privilege
              @ '' ON TABLES FROM GROUP '' @ g])"

text \<open>A changed schema-level flag: one statement on the schema object.\<close>

definition schema_flag_statements :: "bool \<Rightarrow> string \<Rightarrow> string \<Rightarrow> string \<Rightarrow> string list" where
  "schema_flag_statements target privilege s g =
     (if target
      then [''GRANT '' @ privilege @ '' ON SCHEMA '' @ s @ '' TO  GROUP '' @ g]
      else [''REVOKE '' @ privilege @ '' ON SCHEMA '' @ s @ '' FROM GROUP '' @ g])"

definition changed_table_flag :: "ResourceData \<Rightarrow> string \<Rightarrow> string \<Rightarrow> string \<Rightarrow> string \<Rightarrow> string list" where
  "changed_table_flag d k privilege s g =
     (if HasChange d k then table_flag_statements (Get_bool d k) privilege s g else [])"

definition changed_schema_flag :: "ResourceData \<Rightarrow> string \<Rightarrow> string \<Rightarrow> string \<Rightarrow> string \<Rightarrow> string list" where
  "changed_schema_flag d k privilege s g =
     (if HasChange d k then schema_flag_statements (Get_bool d k) privilege s g else [])"

definition update_statements :: "ResourceData \<Rightarrow> string \<Rightarrow> string \<Rightarrow> string list" where
  "update_statements d s g =
     concat (map (\<lambda>(k, privilege). changed_table_flag d k privilege s g) table_flags)
     @ changed_schema_flag d ''usage'' ''USAGE'' s g
     @ changed_schema_flag d ''create'' ''CREATE'' s g"

text \<open>
  On creation: the true table-level flags batched into one GRANT and one ALTER DEFAULT
  PRIVILEGES, the true schema-level flags batched into one GRANT on the schema.
\<close>

definition true_table_privileges :: "ResourceData \<Rightarrow> string list" where
  "true_table_privileges d = map snd (filter (\<lambda>(k, privilege). Get_bool d k) table_flags)"

definition true_schema_privileges :: "ResourceData \<Rightarrow> string list" where
  "true_schema_privileges d =
     map snd (filter (\<lambda>(k, privilege). Get_bool d k) [(''create'', ''CREATE''), (''usage'', ''USAGE'')])"

definition create_statements :: "ResourceData \<Rightarrow> string \<Rightarrow> string \<Rightarrow> string list" where
  "create_statements d s g =
     (if true_table_privileges d = [] then []
      else [''GRANT '' @ Join (true_table_privileges d) '','' @ '' ON ALL TABLES IN SCHEMA '' @ s
              @ '' TO GROUP '' @ g,
            ''ALTER DEFAULT PRIVILEGES IN SCHEMA '' @ s @ '' GRANT ''
              @ Join (true_table_privileges d) '','' @ '' ON TABLES TO GROUP '' @ g])
     @ (if true_schema_privileges d = [] then []
        else [''GRANT '' @ Join (true_schema_privileges d) '','' @ '' ON SCHEMA '' @ s
                @ '' TO GROUP '' @ g])"

section \<open>Concrete warehouses and resources\<close>

text \<open>
  A scripted warehouse: \<open>Begin\<close> and \<open>Commit\<close> succeed, a query and an \<open>Exec\<close> are
  answered by the number of calls made before them, \<open>Rollback\<close> answers \<open>rb\<close>.
\<close>

definition warehouse ::
  "(nat \<Rightarrow> go_error + sqlval list) \<Rightarrow> (nat \<Rightarrow> go_error option) \<Rightarrow> go_error option \<Rightarrow> conn" where
  "warehouse qr er rb =
     \<lparr>on_begin = (\<lambda>tr. None),
      on_exec = (\<lambda>tr q. er (length tr)),
      on_query = (\<lambda>tr q args. qr (length tr)),
      on_rollback = (\<lambda>tr. rb),
      on_commit = (\<lambda>tr. None)\<rparr>"

text \<open>
  After \<open>Begin\<close>, the first query resolves the schema to the name \<open>s\<close> with the given
  owner and the second resolves the group to \<open>g\<close>; later queries find no row.
\<close>

definition lookups :: "int \<Rightarrow> nat \<Rightarrow> go_error + sqlval list" where
  "lookups owner n =
     (if n = 1 then Inr [StrVal ''s'', IntVal owner]
      else if n = 2 then Inr [StrVal ''g'']
      else Inl ErrNoRows)"

definition all_succeed :: "nat \<Rightarrow> go_error option" where
  "all_succeed n = None"

definition fails_at :: "nat \<Rightarrow> nat \<Rightarrow> go_error option" where
  "fails_at k n = (if n = k then Some (SqlError ''permission denied'') else None)"

text \<open>A resource for schema 100 and group 200, with the given prior and desired flags.\<close>

definition resource :: "string list \<Rightarrow> string list \<Rightarrow> ResourceData" where
  "resource before desired =
     \<lparr>res_id = ''100_200'', schema_id = 100, group_id = 200,
      prior = (\<lambda>k. k \<in> set before), planned = (\<lambda>k. k \<in> set desired),
      written = (\<lambda>k. None)\<rparr>"

section \<open>Calls and replies of the hooks, by name\<close>

text \<open>
  The four queries the privilege hooks make on the transaction, and what the warehouse
  answers to them after a given history, as scanned into the hooks' variables.
\<close>

abbreviation lookup_schema :: "ResourceData \<Rightarrow> call" where
  "lookup_schema d \<equiv> QueryRow TX schemaInfoQuery [IntArg (schema_id d)]"

abbreviation lookup_group :: "ResourceData \<Rightarrow> call" where
  "lookup_group d \<equiv> QueryRow TX groupNameQuery [IntArg (group_id d)]"

abbreviation read_tables :: "ResourceData \<Rightarrow> call" where
  "read_tables d \<equiv> QueryRow TX hasPrivilegeQuery [IntArg (schema_id d), IntArg (group_id d)]"

abbreviation read_schema :: "ResourceData \<Rightarrow> call" where
  "read_schema d \<equiv> QueryRow TX hasSchemaPrivilegeQuery [IntArg (schema_id d), IntArg (group_id d)]"

definition schema_lookup :: "conn \<Rightarrow> ResourceData \<Rightarrow> call list \<Rightarrow> go_error + string \<times> int" where
  "schema_lookup c d t = Scan_string_int (on_query c t schemaInfoQuery [IntArg (schema_id d)])"

definition group_lookup :: "conn \<Rightarrow> ResourceData \<Rightarrow> call list \<Rightarrow> go_error + string" where
  "group_lookup c d t = Scan_string (on_query c t groupNameQuery [IntArg (group_id d)])"

definition tables_reply ::
  "conn \<Rightarrow> ResourceData \<Rightarrow> call list \<Rightarrow> go_error + bool \<times> bool \<times> bool \<times> bool \<times> bool" where
  "tables_reply c d t =
     Scan_bool5 (on_query c t hasPrivilegeQuery [IntArg (schema_id d), IntArg (group_id d)])"

definition schema_reply :: "conn \<Rightarrow> ResourceData \<Rightarrow> call list \<Rightarrow> go_error + bool \<times> bool" where
  "schema_reply c d t =
     Scan_bool2 (on_query c t hasSchemaPrivilegeQuery [IntArg (schema_id d), IntArg (group_id d)])"

text \<open>
  The error of a read-back reply that makes the reader fail: any error but \<open>ErrNoRows\<close>.
  \<open>readback_ok\<close> says that no read-back query among the calls \<open>es\<close>, made after the
  history \<open>tr\<close>, failed in this sense.
\<close>

definition real_error :: "go_error + 'a \<Rightarrow> go_error option" where
  "real_error r = (case r of Inl err \<Rightarrow> (if err \<noteq> ErrNoRows then Some err else None) | Inr v \<Rightarrow> None)"

definition readback_failure :: "conn \<Rightarrow> call list \<Rightarrow> string \<Rightarrow> sqlarg list \<Rightarrow> go_error option" where
  "readback_failure c t q args =
     (if q = hasPrivilegeQuery then real_error (Scan_bool5 (on_query c t q args))
      else if q = hasSchemaPrivilegeQuery then real_error (Scan_bool2 (on_query c t q args))
      else None)"

fun readback_ok :: "conn \<Rightarrow> call list \<Rightarrow> call list \<Rightarrow> bool" where
  "readback_ok c tr [] = True"
| "readback_ok c tr (QueryRow h q args # es) =
     (readback_failure c tr q args = None \<and> readback_ok c (tr @ [QueryRow h q args]) es)"
| "readback_ok c tr (x # es) = readback_ok c (tr @ [x]) es"

text \<open>A desired privilege set with zero true flags.\<close>

definition no_privileges :: "ResourceData \<Rightarrow> bool" where
  "no_privileges d = (\<forall>k \<in> set all_flags. \<not> Get_bool d k)"

text \<open>Further scripted answers: the first read-back query fails; the second one fails.\<close>

definition readback_fails :: "nat \<Rightarrow> go_error + sqlval list" where
  "readback_fails n = (if n = 5 then Inl (SqlError ''connection reset'') else lookups 100 n)"

definition schema_read_fails :: "nat \<Rightarrow> go_error + sqlval list" where
  "schema_read_fails n = (if n = 1 then Inl (SqlError ''connection reset'') else Inl ErrNoRows)"

text \<open>A resource that has not been created yet: it has no identifier.\<close>

definition unsaved :: "string list \<Rightarrow> ResourceData" where
  "unsaved desired = (resource [] desired)\<lparr>res_id := []\<rparr>"

text \<open>The comparison of the existence query that selects the association.\<close>

definition identifier_comparison :: string where
  "identifier_comparison = ''nsp.oid || '_' || pu.grosysid = $1''"

section \<open>Shared lemmas\<close>

lemmas prims = DB_Begin_def Tx_Exec_def Tx_Rollback_def Tx_Commit_def Query_Row_def rollback_return_def

lemma validateGrants_true_flags: "validateGrants d = true_table_privileges d"
  by (simp add: validateGrants_def true_table_privileges_def table_flags_def GetOk_bool_def)

lemma validateSchemaGrants_true_flags: "validateSchemaGrants d = true_schema_privileges d"
  by (simp add: validateSchemaGrants_def true_schema_privileges_def GetOk_bool_def)

lemma execs_append: "execs (xs @ ys) = execs xs @ execs ys"
  by (induction xs rule: execs.induct) simp_all

lemma execs_map_Exec: "execs (map (Exec h) qs) = qs"
  by (induction qs) simp_all

lemma exec_ok_append: "exec_ok c t (xs @ ys) = (exec_ok c t xs \<and> exec_ok c (t @ xs) ys)"
  by (induction c t xs rule: exec_ok.induct) simp_all

lemma run_execs_append:
  "run_execs c (xs @ ys) t =
     (case run_execs c xs t of (Some e, t') \<Rightarrow> (Some e, t') | (None, t') \<Rightarrow> run_execs c ys t')"
  by (induction xs arbitrary: t) (simp_all split: option.splits)

lemma run_execs_None:
  "run_execs c qs t = (None, t') \<Longrightarrow> t' = t @ map (Exec TX) qs \<and> exec_ok c t (map (Exec TX) qs)"
proof (induction qs arbitrary: t)
  case Nil
  then show ?case by simp
next
  case (Cons q qs)
  from Cons.prems have ok: "on_exec c t q = None"
    and rest: "run_execs c qs (t @ [Exec TX q]) = (None, t')"
    by (simp_all split: option.splits)
  from Cons.IH [OF rest] ok show ?case by simp
qed

lemma run_execs_Some:
  "run_execs c qs t = (Some e, t') \<Longrightarrow>
     \<exists>ps q rest. qs = ps @ q # rest \<and> t' = t @ map (Exec TX) ps @ [Exec TX q]
       \<and> exec_ok c t (map (Exec TX) ps) \<and> on_exec c (t @ map (Exec TX) ps) q = Some e"
proof (induction qs arbitrary: t)
  case Nil
  then show ?case by simp
next
  case (Cons q qs)
  show ?case
  proof (cases "on_exec c t q")
    case None
    with Cons.prems have "run_execs c qs (t @ [Exec TX q]) = (Some e, t')" by simp
    from Cons.IH [OF this] obtain ps q' rest where
      h: "qs = ps @ q' # rest" "t' = (t @ [Exec TX q]) @ map (Exec TX) ps @ [Exec TX q']"
         "exec_ok c (t @ [Exec TX q]) (map (Exec TX) ps)"
         "on_exec c ((t @ [Exec TX q]) @ map (Exec TX) ps) q' = Some e"
      by blast
    show ?thesis
      apply (rule exI [of _ "q # ps"], rule exI [of _ q'], rule exI [of _ rest])
      using h None by simp
  next
    case (Some err)
    with Cons.prems have "err = e" "t' = t @ [Exec TX q]" by simp_all
    then show ?thesis
      apply -
      apply (rule exI [of _ "[]"], rule exI [of _ q], rule exI [of _ qs])
      using Some by simp
  qed
qed

lemma updatePrivilege_run:
  "updatePrivilege c d k p s g t = run_execs c (changed_table_flag d k p s g) t"
  by (simp add: updatePrivilege_def changed_table_flag_def table_flag_statements_def Tx_Exec_def
        split: option.splits)

lemma updateSchemaPrivilege_run:
  "updateSchemaPrivilege c d k p s g t = run_execs c (changed_schema_flag d k p s g) t"
  by (simp add: updateSchemaPrivilege_def changed_schema_flag_def schema_flag_statements_def
        Tx_Exec_def split: option.splits)

lemma seven_steps:
  "(case run_execs c x1 t of (Some e, t1) \<Rightarrow> F e t1 | (None, t1) \<Rightarrow>
    (case run_execs c x2 t1 of (Some e, t2) \<Rightarrow> F e t2 | (None, t2) \<Rightarrow> G t2))
   = (case run_execs c (x1 @ x2) t of (Some e, t') \<Rightarrow> F e t' | (None, t') \<Rightarrow> G t')"
  by (simp add: run_execs_append split: prod.splits option.splits)

lemma update_chain:
  "(case updatePrivilege c d ''select'' ''SELECT'' schemaName groupName tr2 of
        (Some err, t1) \<Rightarrow> rollback_return c err d t1
      | (None, t1) \<Rightarrow>
     (case updatePrivilege c d ''insert'' ''INSERT'' schemaName groupName t1 of
        (Some err, t2) \<Rightarrow> rollback_return c err d t2
      | (None, t2) \<Rightarrow>
     (case updatePrivilege c d ''update'' ''UPDATE'' schemaName groupName t2 of
        (Some err, t3) \<Rightarrow> rollback_return c err d t3
      | (None, t3) \<Rightarrow>
     (case updatePrivilege c d ''delete'' ''DELETE'' schemaName groupName t3 of
        (Some err, t4) \<Rightarrow> rollback_return c err d t4
      | (None, t4) \<Rightarrow>
     (case updatePrivilege c d ''references'' ''REFERENCES'' schemaName groupName t4 of
        (Some err, t5) \<Rightarrow> rollback_return c err d t5
      | (None, t5) \<Rightarrow>
     (case updateSchemaPrivilege c d ''usage'' ''USAGE'' schemaName groupName t5 of
        (Some err, t6) \<Rightarrow> rollback_return c err d t6
      | (None, t6) \<Rightarrow>
     (case updateSchemaPrivilege c d ''create'' ''CREATE'' schemaName groupName t6 of
        (Some err, t7) \<Rightarrow> rollback_return c err d t7
      | (None, t7) \<Rightarrow>
     (case Tx_Commit c t7 of
        (Some commitErr, t8) \<Rightarrow> (Returned (Some commitErr), d, t8)
      | (None, t8) \<Rightarrow> (Returned None, d, t8)))))))))
   = (case run_execs c (update_statements d schemaName groupName) tr2 of
        (Some e, t) \<Rightarrow> (Returned (Some e), d, t @ [Rollback])
      | (None, t) \<Rightarrow> (Returned (on_commit c t), d, t @ [Commit]))"
proof -
  have fin: "\<And>t. (case Tx_Commit c t of
                 (Some commitErr, t8) \<Rightarrow> (Returned (Some commitErr), d, t8)
               | (None, t8) \<Rightarrow> (Returned None, d, t8)) = (Returned (on_commit c t), d, t @ [Commit])"
    by (simp add: Tx_Commit_def split: option.splits)
  have rb: "\<And>e t. rollback_return c e d t = (Returned (Some e), d, t @ [Rollback])"
    by (simp add: rollback_return_def Tx_Rollback_def)
  have sts: "update_statements d schemaName groupName =
     changed_table_flag d ''select'' ''SELECT'' schemaName groupName @
     changed_table_flag d ''insert'' ''INSERT'' schemaName groupName @
     changed_table_flag d ''update'' ''UPDATE'' schemaName groupName @
     changed_table_flag d ''delete'' ''DELETE'' schemaName groupName @
     changed_table_flag d ''references'' ''REFERENCES'' schemaName groupName @
     changed_schema_flag d ''usage'' ''USAGE'' schemaName groupName @
     changed_schema_flag d ''create'' ''CREATE'' schemaName groupName"
    by (simp add: update_statements_def table_flags_def)
  show ?thesis
    unfolding fin rb updatePrivilege_run updateSchemaPrivilege_run seven_steps sts ..
qed

lemma Update_statement_phase:
  assumes "on_begin c tr = None"
    and "validateGrants d \<noteq> [] \<or> validateSchemaGrants d \<noteq> []"
    and "Scan_string_int (on_query c (tr @ [Begin]) schemaInfoQuery [IntArg (schema_id d)]) = Inr (s, owner)"
    and "Scan_string (on_query c (tr @ [Begin, QueryRow TX schemaInfoQuery [IntArg (schema_id d)]])
            groupNameQuery [IntArg (group_id d)]) = Inr g"
  shows "resourceRedshiftSchemaGroupPrivilegeUpdate c d tr =
     (case run_execs c (update_statements d s g)
             (tr @ [Begin, QueryRow TX schemaInfoQuery [IntArg (schema_id d)],
                    QueryRow TX groupNameQuery [IntArg (group_id d)]]) of
        (Some e, t) \<Rightarrow> (Returned (Some e), d, t @ [Rollback])
      | (None, t) \<Rightarrow> (Returned (on_commit c t), d, t @ [Commit]))"
  unfolding resourceRedshiftSchemaGroupPrivilegeUpdate_def update_chain
  using assms
  by (auto simp add: GetSchemaInfoForSchemaId_def
        GetGroupNameForGroupId_def DB_Begin_def Query_Row_def)


lemma Create_statement_phase:
  assumes "on_begin c tr = None"
    and "validateGrants d \<noteq> [] \<or> validateSchemaGrants d \<noteq> []"
    and "Scan_string_int (on_query c (tr @ [Begin]) schemaInfoQuery [IntArg (schema_id d)]) = Inr (s, owner)"
    and "owner \<noteq> 1"
    and "Scan_string (on_query c (tr @ [Begin, QueryRow TX schemaInfoQuery [IntArg (schema_id d)]])
            groupNameQuery [IntArg (group_id d)]) = Inr g"
  shows "resourceRedshiftSchemaGroupPrivilegeCreate c d tr =
     (case run_execs c (create_statements d s g)
             (tr @ [Begin, QueryRow TX schemaInfoQuery [IntArg (schema_id d)],
                    QueryRow TX groupNameQuery [IntArg (group_id d)]]) of
        (Some e, t) \<Rightarrow> (Returned (Some e), d, t @ [Rollback])
      | (None, t) \<Rightarrow>
          (case readRedshiftSchemaGroupPrivilege c
                  (SetId d (Sprint (schema_id d) @ ''_'' @ Sprint (group_id d))) t of
             (Some e, d2, t5) \<Rightarrow> (Returned (Some e), d2, t5 @ [Rollback])
           | (None, d2, t5) \<Rightarrow> (Returned (on_commit c t5), d2, t5 @ [Commit])))"
proof -
  have fin: "\<And>d2 t. (case Tx_Commit c t of
                 (Some commitErr, t8) \<Rightarrow> (Returned (Some commitErr), d2, t8)
               | (None, t8) \<Rightarrow> (Returned None, d2, t8)) = (Returned (on_commit c t), d2, t @ [Commit])"
    by (simp add: Tx_Commit_def split: option.splits)
  have rb: "\<And>e d2 t. rollback_return c e d2 t = (Returned (Some e), d2, t @ [Rollback])"
    by (simp add: rollback_return_def Tx_Rollback_def)
  note pre = assms(1,3,4,5) GetSchemaInfoForSchemaId_def GetGroupNameForGroupId_def
    DB_Begin_def Query_Row_def Tx_Exec_def isSystemSchema_def create_statements_def
  show ?thesis
  proof (cases "validateGrants d = []")
    case True
    with assms(2) have sg: "validateSchemaGrants d \<noteq> []" by simp
    from True sg show ?thesis
      unfolding resourceRedshiftSchemaGroupPrivilegeCreate_def Let_def fin rb
      by (simp add: pre validateGrants_true_flags validateSchemaGrants_true_flags
            split: option.splits)
  next
    case False
    show ?thesis
    proof (cases "validateSchemaGrants d = []")
      case True
      with False show ?thesis
        unfolding resourceRedshiftSchemaGroupPrivilegeCreate_def Let_def fin rb
        by (simp add: pre validateGrants_true_flags validateSchemaGrants_true_flags
              split: option.splits)
    next
      case sg: False
      with False show ?thesis
        unfolding resourceRedshiftSchemaGroupPrivilegeCreate_def Let_def fin rb
        by (simp add: pre validateGrants_true_flags validateSchemaGrants_true_flags
              split: option.splits)
    qed
  qed
qed


lemma query_texts_differ:
  "schemaInfoQuery \<noteq> hasPrivilegeQuery" "schemaInfoQuery \<noteq> hasSchemaPrivilegeQuery"
  "groupNameQuery \<noteq> hasPrivilegeQuery" "groupNameQuery \<noteq> hasSchemaPrivilegeQuery"
  "hasPrivilegeQuery \<noteq> hasSchemaPrivilegeQuery"
  by (simp_all add: schemaInfoQuery_def groupNameQuery_def hasPrivilegeQuery_def
        hasSchemaPrivilegeQuery_def)

lemma real_error_accepted: "(real_error r = None) = accepted r"
  by (simp add: real_error_def accepted_def split: sum.splits)

lemma real_error_Some: "(real_error r = Some e) = (r = Inl e \<and> e \<noteq> ErrNoRows)"
  by (auto simp add: real_error_def split: sum.splits)

lemma read_cases:
  fixes c d t
  defines "r1 \<equiv> tables_reply c d t"
  defines "r2 \<equiv> schema_reply c d (t @ [read_tables d])"
  obtains (tables_failed) e where "r1 = Inl e" "e \<noteq> ErrNoRows"
      "readRedshiftSchemaGroupPrivilege c d t = (Some e, d, t @ [read_tables d, Rollback])"
  | (schema_failed) e where "accepted r1" "r2 = Inl e" "e \<noteq> ErrNoRows"
      "readRedshiftSchemaGroupPrivilege c d t = (Some e, d, t @ [read_tables d, read_schema d, Rollback])"
  | (read_ok) d2 where "accepted r1" "accepted r2" "res_id d2 = res_id d"
      "readRedshiftSchemaGroupPrivilege c d t = (None, d2, t @ [read_tables d, read_schema d])"
proof (cases "real_error r1")
  case (Some e)
  then have "r1 = Inl e" "e \<noteq> ErrNoRows" by (simp_all add: real_error_Some)
  moreover from this have
    "readRedshiftSchemaGroupPrivilege c d t = (Some e, d, t @ [read_tables d, Rollback])"
    by (simp add: readRedshiftSchemaGroupPrivilege_def Query_Row_def scanned_or_zero_def
        Tx_Rollback_def r1_def tables_reply_def)
  ultimately show ?thesis by (rule tables_failed)
next
  case None
  then have a1: "accepted r1" by (simp add: real_error_accepted)
  show ?thesis
  proof (cases "real_error r2")
    case (Some e)
    then have e: "r2 = Inl e" "e \<noteq> ErrNoRows" by (simp_all add: real_error_Some)
    with a1 have
      "readRedshiftSchemaGroupPrivilege c d t
         = (Some e, d, t @ [read_tables d, read_schema d, Rollback])"
      by (auto simp add: readRedshiftSchemaGroupPrivilege_def Query_Row_def scanned_or_zero_def
          Tx_Rollback_def r1_def r2_def tables_reply_def schema_reply_def accepted_def split: sum.splits)
    with a1 e show ?thesis by (rule schema_failed)
  next
    case n2: None
    then have a2: "accepted r2" by (simp add: real_error_accepted)
    from a1 a2 have
      "\<exists>d2. res_id d2 = res_id d \<and> readRedshiftSchemaGroupPrivilege c d t
         = (None, d2, t @ [read_tables d, read_schema d])"
      by (auto simp add: readRedshiftSchemaGroupPrivilege_def Query_Row_def scanned_or_zero_def
          Set_bool_def r1_def r2_def tables_reply_def schema_reply_def accepted_def split: sum.splits)
    with a1 a2 show ?thesis using read_ok by blast
  qed
qed


lemma rb: "rollback_return c e d t = (Returned (Some e), d, t @ [Rollback])"
  by (simp add: rollback_return_def Tx_Rollback_def)

lemma Create_cases:
  fixes c d tr
  defines "t1 \<equiv> tr @ [Begin]"
  defines "t2 \<equiv> tr @ [Begin, lookup_schema d]"
  defines "t3 \<equiv> tr @ [Begin, lookup_schema d, lookup_group d]"
  obtains
    (panic) e where "on_begin c tr = Some e"
      "resourceRedshiftSchemaGroupPrivilegeCreate c d tr = (Panicked e, d, tr @ [Begin])"
  | (rejected) "on_begin c tr = None" "validateGrants d = []" "validateSchemaGrants d = []"
      "resourceRedshiftSchemaGroupPrivilegeCreate c d tr
         = (Returned (Some (NewError ''Must have at least 1 privilege'')), d, tr @ [Begin, Rollback])"
  | (schema_unresolved) e where "schema_lookup c d t1 = Inl e"
      "resourceRedshiftSchemaGroupPrivilegeCreate c d tr = (Returned (Some e), d, t2 @ [Rollback])"
  | (system_schema) s where "schema_lookup c d t1 = Inr (s, 1)"
      "resourceRedshiftSchemaGroupPrivilegeCreate c d tr
         = (Returned (Some (NewError (''Privilege creation is not allowed for system schemas, schema='' @ s))),
            d, t2 @ [Rollback])"
  | (group_unresolved) e where "group_lookup c d t2 = Inl e"
      "resourceRedshiftSchemaGroupPrivilegeCreate c d tr = (Returned (Some e), d, t3 @ [Rollback])"
  | (statement_failed) ps q e where
      "exec_ok c t3 (map (Exec TX) ps)" "on_exec c (t3 @ map (Exec TX) ps) q = Some e"
      "resourceRedshiftSchemaGroupPrivilegeCreate c d tr
         = (Returned (Some e), d, t3 @ map (Exec TX) ps @ [Exec TX q, Rollback])"
  | (tables_readback_failed) s owner g e where
      "schema_lookup c d t1 = Inr (s, owner)" "group_lookup c d t2 = Inr g"
      "exec_ok c t3 (map (Exec TX) (create_statements d s g))"
      "tables_reply c d (t3 @ map (Exec TX) (create_statements d s g)) = Inl e"
      "e \<noteq> ErrNoRows"
      "resourceRedshiftSchemaGroupPrivilegeCreate c d tr
         = (Returned (Some e), SetId d (Sprint (schema_id d) @ ''_'' @ Sprint (group_id d)),
            t3 @ map (Exec TX) (create_statements d s g) @ [read_tables d, Rollback, Rollback])"
  | (schema_readback_failed) s owner g e where
      "schema_lookup c d t1 = Inr (s, owner)" "group_lookup c d t2 = Inr g"
      "exec_ok c t3 (map (Exec TX) (create_statements d s g))"
      "accepted (tables_reply c d (t3 @ map (Exec TX) (create_statements d s g)))"
      "schema_reply c d (t3 @ map (Exec TX) (create_statements d s g) @ [read_tables d]) = Inl e"
      "e \<noteq> ErrNoRows"
      "resourceRedshiftSchemaGroupPrivilegeCreate c d tr
         = (Returned (Some e), SetId d (Sprint (schema_id d) @ ''_'' @ Sprint (group_id d)),
            t3 @ map (Exec TX) (create_statements d s g) @ [read_tables d, read_schema d, Rollback, Rollback])"
  | (committed) s owner g d2 where
      "on_begin c tr = None" "validateGrants d \<noteq> [] \<or> validateSchemaGrants d \<noteq> []"
      "schema_lookup c d t1 = Inr (s, owner)" "owner \<noteq> 1" "group_lookup c d t2 = Inr g"
      "exec_ok c t3 (map (Exec TX) (create_statements d s g))"
      "accepted (tables_reply c d (t3 @ map (Exec TX) (create_statements d s g)))"
      "accepted (schema_reply c d (t3 @ map (Exec TX) (create_statements d s g) @ [read_tables d]))"
      "res_id d2 = Sprint (schema_id d) @ ''_'' @ Sprint (group_id d)"
      "resourceRedshiftSchemaGroupPrivilegeCreate c d tr
         = (Returned (on_commit c (t3 @ map (Exec TX) (create_statements d s g) @ [read_tables d, read_schema d])),
            d2, t3 @ map (Exec TX) (create_statements d s g) @ [read_tables d, read_schema d, Commit])"
proof (cases "on_begin c tr")
  case (Some e)
  then have "resourceRedshiftSchemaGroupPrivilegeCreate c d tr = (Panicked e, d, tr @ [Begin])"
    by (simp add: resourceRedshiftSchemaGroupPrivilegeCreate_def DB_Begin_def)
  with Some show ?thesis by (rule panic)
next
  case None
  note began = None
  show ?thesis
  proof (cases "validateGrants d = [] \<and> validateSchemaGrants d = []")
    case True
    with began have "resourceRedshiftSchemaGroupPrivilegeCreate c d tr
         = (Returned (Some (NewError ''Must have at least 1 privilege'')), d, tr @ [Begin, Rollback])"
      by (simp add: resourceRedshiftSchemaGroupPrivilegeCreate_def DB_Begin_def rb)
    with began True show ?thesis using rejected by blast
  next
    case False
    then have some: "validateGrants d \<noteq> [] \<or> validateSchemaGrants d \<noteq> []" by blast
    show ?thesis
    proof (cases "schema_lookup c d t1")
      case (Inl e)
      with began False have
        "resourceRedshiftSchemaGroupPrivilegeCreate c d tr = (Returned (Some e), d, t2 @ [Rollback])"
        by (auto simp add: resourceRedshiftSchemaGroupPrivilegeCreate_def DB_Begin_def rb
            GetSchemaInfoForSchemaId_def Query_Row_def schema_lookup_def t1_def t2_def)
      with Inl show ?thesis by (rule schema_unresolved)
    next
      case (Inr so)
      obtain s owner where so: "so = (s, owner)" by (cases so)
      note schema = Inr [unfolded so]
      show ?thesis
      proof (cases "owner = 1")
        case True
        with began False schema have
          "resourceRedshiftSchemaGroupPrivilegeCreate c d tr
             = (Returned (Some (NewError (''Privilege creation is not allowed for system schemas, schema='' @ s))),
                d, t2 @ [Rollback])"
          by (auto simp add: resourceRedshiftSchemaGroupPrivilegeCreate_def DB_Begin_def rb
              GetSchemaInfoForSchemaId_def Query_Row_def schema_lookup_def t1_def t2_def
              isSystemSchema_def)
        with schema True show ?thesis using system_schema by blast
      next
        case notsys: False
        show ?thesis
        proof (cases "group_lookup c d t2")
          case (Inl e)
          with began False schema notsys have
            "resourceRedshiftSchemaGroupPrivilegeCreate c d tr = (Returned (Some e), d, t3 @ [Rollback])"
            by (auto simp add: resourceRedshiftSchemaGroupPrivilegeCreate_def DB_Begin_def rb
                GetSchemaInfoForSchemaId_def GetGroupNameForGroupId_def Query_Row_def
                schema_lookup_def group_lookup_def t1_def t2_def t3_def isSystemSchema_def)
          with Inl show ?thesis by (rule group_unresolved)
        next
          case (Inr g)
          note group = Inr
          let ?sts = "create_statements d s g"
          let ?d1 = "SetId d (Sprint (schema_id d) @ ''_'' @ Sprint (group_id d))"
          have phase: "resourceRedshiftSchemaGroupPrivilegeCreate c d tr =
             (case run_execs c ?sts t3 of
                (Some e, t) \<Rightarrow> (Returned (Some e), d, t @ [Rollback])
              | (None, t) \<Rightarrow>
                  (case readRedshiftSchemaGroupPrivilege c ?d1 t of
                     (Some e, d2, t5) \<Rightarrow> (Returned (Some e), d2, t5 @ [Rollback])
                   | (None, d2, t5) \<Rightarrow> (Returned (on_commit c t5), d2, t5 @ [Commit])))"
            unfolding t3_def
            using began some schema notsys group
            by (intro Create_statement_phase [where owner = owner])
               (simp_all add: schema_lookup_def group_lookup_def t1_def t2_def)
          obtain r t where run: "run_execs c ?sts t3 = (r, t)" by (cases "run_execs c ?sts t3")
          show ?thesis
          proof (cases r)
            case (Some e)
            from run_execs_Some [OF run [unfolded Some]] obtain ps q rest where
              h: "t = t3 @ map (Exec TX) ps @ [Exec TX q]" "exec_ok c t3 (map (Exec TX) ps)"
                 "on_exec c (t3 @ map (Exec TX) ps) q = Some e"
              by blast
            from phase run Some h(1) have
              "resourceRedshiftSchemaGroupPrivilegeCreate c d tr
                 = (Returned (Some e), d, t3 @ map (Exec TX) ps @ [Exec TX q, Rollback])"
              by simp
            with h(2,3) show ?thesis by (rule statement_failed)
          next
            case None
            from run_execs_None [OF run [unfolded None]] have
              t: "t = t3 @ map (Exec TX) ?sts" and ok: "exec_ok c t3 (map (Exec TX) ?sts)"
              by simp_all
            have ids: "schema_id ?d1 = schema_id d" "group_id ?d1 = group_id d"
              "\<And>u. tables_reply c ?d1 u = tables_reply c d u"
              "\<And>u. schema_reply c ?d1 u = schema_reply c d u"
              by (simp_all add: SetId_def tables_reply_def schema_reply_def)
            show ?thesis
            proof (cases rule: read_cases [where c = c and d = ?d1 and t = t])
              case (tables_failed e)
              with phase run None t ids have
                "resourceRedshiftSchemaGroupPrivilegeCreate c d tr
                   = (Returned (Some e), ?d1,
                      t3 @ map (Exec TX) ?sts @ [read_tables d, Rollback, Rollback])"
                by simp
              with schema group ok tables_failed(1,2) show ?thesis
                unfolding ids t
                by (rule tables_readback_failed)
            next
              case (schema_failed e)
              with phase run None t ids have
                "resourceRedshiftSchemaGroupPrivilegeCreate c d tr
                   = (Returned (Some e), ?d1,
                      t3 @ map (Exec TX) ?sts @ [read_tables d, read_schema d, Rollback, Rollback])"
                by simp
              with schema group ok schema_failed(1,2,3) show ?thesis
                unfolding ids t append_assoc
                by (rule schema_readback_failed)
            next
              case (read_ok d2)
              with phase run None t ids have
                "resourceRedshiftSchemaGroupPrivilegeCreate c d tr
                   = (Returned (on_commit c (t3 @ map (Exec TX) ?sts @ [read_tables d, read_schema d])),
                      d2, t3 @ map (Exec TX) ?sts @ [read_tables d, read_schema d, Commit])"
                by simp
              moreover from read_ok(3) have "res_id d2 = Sprint (schema_id d) @ ''_'' @ Sprint (group_id d)"
                by (simp add: SetId_def)
              ultimately show ?thesis
                using began some schema notsys group ok read_ok(1,2)
                unfolding ids t append_assoc
                by (intro committed [of s owner g d2]) simp_all
            qed
          qed
        qed
      qed
    qed
  qed
qed

lemma Update_cases:
  fixes c d tr
  defines "t1 \<equiv> tr @ [Begin]"
  defines "t2 \<equiv> tr @ [Begin, lookup_schema d]"
  defines "t3 \<equiv> tr @ [Begin, lookup_schema d, lookup_group d]"
  obtains
    (panic) e where "on_begin c tr = Some e"
      "resourceRedshiftSchemaGroupPrivilegeUpdate c d tr = (Panicked e, d, tr @ [Begin])"
  | (rejected) "on_begin c tr = None" "validateGrants d = []" "validateSchemaGrants d = []"
      "resourceRedshiftSchemaGroupPrivilegeUpdate c d tr
         = (Returned (Some (NewError ''Must have at least 1 privilege'')), d, tr @ [Begin, Rollback])"
  | (schema_unresolved) e where "schema_lookup c d t1 = Inl e"
      "resourceRedshiftSchemaGroupPrivilegeUpdate c d tr = (Returned (Some e), d, t2 @ [Rollback])"
  | (group_unresolved) e where "group_lookup c d t2 = Inl e"
      "resourceRedshiftSchemaGroupPrivilegeUpdate c d tr = (Returned (Some e), d, t3 @ [Rollback])"
  | (statement_failed) s owner g ps q rest e where
      "schema_lookup c d t1 = Inr (s, owner)" "group_lookup c d t2 = Inr g"
      "update_statements d s g = ps @ q # rest"
      "exec_ok c t3 (map (Exec TX) ps)" "on_exec c (t3 @ map (Exec TX) ps) q = Some e"
      "resourceRedshiftSchemaGroupPrivilegeUpdate c d tr
         = (Returned (Some e), d, t3 @ map (Exec TX) ps @ [Exec TX q, Rollback])"
  | (committed) s owner g where
      "on_begin c tr = None" "validateGrants d \<noteq> [] \<or> validateSchemaGrants d \<noteq> []"
      "schema_lookup c d t1 = Inr (s, owner)" "group_lookup c d t2 = Inr g"
      "exec_ok c t3 (map (Exec TX) (update_statements d s g))"
      "resourceRedshiftSchemaGroupPrivilegeUpdate c d tr
         = (Returned (on_commit c (t3 @ map (Exec TX) (update_statements d s g))),
            d, t3 @ map (Exec TX) (update_statements d s g) @ [Commit])"
proof (cases "on_begin c tr")
  case (Some e)
  then have "resourceRedshiftSchemaGroupPrivilegeUpdate c d tr = (Panicked e, d, tr @ [Begin])"
    by (simp add: resourceRedshiftSchemaGroupPrivilegeUpdate_def DB_Begin_def)
  with Some show ?thesis by (rule panic)
next
  case None
  note began = None
  show ?thesis
  proof (cases "validateGrants d = [] \<and> validateSchemaGrants d = []")
    case True
    with began have "resourceRedshiftSchemaGroupPrivilegeUpdate c d tr
         = (Returned (Some (NewError ''Must have at least 1 privilege'')), d, tr @ [Begin, Rollback])"
      by (simp add: resourceRedshiftSchemaGroupPrivilegeUpdate_def DB_Begin_def rb)
    with began True show ?thesis using rejected by blast
  next
    case False
    then have some: "validateGrants d \<noteq> [] \<or> validateSchemaGrants d \<noteq> []" by blast
    show ?thesis
    proof (cases "schema_lookup c d t1")
      case (Inl e)
      with began False have
        "resourceRedshiftSchemaGroupPrivilegeUpdate c d tr = (Returned (Some e), d, t2 @ [Rollback])"
        by (auto simp add: resourceRedshiftSchemaGroupPrivilegeUpdate_def DB_Begin_def rb
            GetSchemaInfoForSchemaId_def Query_Row_def schema_lookup_def t1_def t2_def)
      with Inl show ?thesis by (rule schema_unresolved)
    next
      case (Inr so)
      obtain s owner where so: "so = (s, owner)" by (cases so)
      note schema = Inr [unfolded so]
      show ?thesis
      proof (cases "group_lookup c d t2")
        case (Inl e)
        with began False schema have
          "resourceRedshiftSchemaGroupPrivilegeUpdate c d tr = (Returned (Some e), d, t3 @ [Rollback])"
          by (auto simp add: resourceRedshiftSchemaGroupPrivilegeUpdate_def DB_Begin_def rb
              GetSchemaInfoForSchemaId_def GetGroupNameForGroupId_def Query_Row_def
              schema_lookup_def group_lookup_def t1_def t2_def t3_def)
        with Inl show ?thesis by (rule group_unresolved)
      next
        case (Inr g)
        note group = Inr
        let ?sts = "update_statements d s g"
        have phase: "resourceRedshiftSchemaGroupPrivilegeUpdate c d tr =
           (case run_execs c ?sts t3 of
              (Some e, t) \<Rightarrow> (Returned (Some e), d, t @ [Rollback])
            | (None, t) \<Rightarrow> (Returned (on_commit c t), d, t @ [Commit]))"
          unfolding t3_def
          using began some schema group
          by (intro Update_statement_phase [where owner = owner])
             (simp_all add: schema_lookup_def group_lookup_def t1_def t2_def)
        obtain r t where run: "run_execs c ?sts t3 = (r, t)" by (cases "run_execs c ?sts t3")
        show ?thesis
        proof (cases r)
          case (Some e)
          from run_execs_Some [OF run [unfolded Some]] obtain ps q rest where
            h: "?sts = ps @ q # rest"
               "t = t3 @ map (Exec TX) ps @ [Exec TX q]" "exec_ok c t3 (map (Exec TX) ps)"
               "on_exec c (t3 @ map (Exec TX) ps) q = Some e"
            by blast
          from phase run Some h(2) have
            "resourceRedshiftSchemaGroupPrivilegeUpdate c d tr
               = (Returned (Some e), d, t3 @ map (Exec TX) ps @ [Exec TX q, Rollback])"
            by simp
          with schema group h(1,3,4) show ?thesis by (rule statement_failed)
        next
          case None
          from run_execs_None [OF run [unfolded None]] have
            t: "t = t3 @ map (Exec TX) ?sts" and ok: "exec_ok c t3 (map (Exec TX) ?sts)"
            by simp_all
          from phase run None t have
            "resourceRedshiftSchemaGroupPrivilegeUpdate c d tr
               = (Returned (on_commit c (t3 @ map (Exec TX) ?sts)), d,
                  t3 @ map (Exec TX) ?sts @ [Commit])"
            by simp
          with began some schema group ok show ?thesis by (rule committed)
        qed
      qed
    qed
  qed
qed

lemma no_privileges_iff:
  "no_privileges d = (validateGrants d = [] \<and> validateSchemaGrants d = [])"
  by (auto simp add: no_privileges_def validateGrants_def validateSchemaGrants_def GetOk_bool_def
        all_flags_def)

lemma exec_ok_map_Exec_set [simp]:
  "Commit \<notin> set (map (Exec h) qs)" "Rollback \<notin> set (map (Exec h) qs)"
  "Begin \<notin> set (map (Exec h) qs)" "QueryRow h' q args \<notin> set (map (Exec h) qs)"
  by auto

lemma Update_statement_failure:
  assumes "resourceRedshiftSchemaGroupPrivilegeUpdate c d tr = (res, d', tr')"
    and "\<not> exec_ok c tr (drop (length tr) tr')"
  shows "\<exists>p q e. tr' = tr @ p @ [Exec TX q, Rollback] \<and> exec_ok c tr p
           \<and> on_exec c (tr @ p) q = Some e \<and> res = Returned (Some e)
           \<and> Commit \<notin> set p \<and> Rollback \<notin> set p"
proof (cases rule: Update_cases [where c = c and d = d and tr = tr])
  case (statement_failed s owner g ps q rest e)
  let ?p = "[Begin, lookup_schema d, lookup_group d] @ map (Exec TX) ps"
  from statement_failed(6) assms(1) have
    "tr' = tr @ ?p @ [Exec TX q, Rollback]" "res = Returned (Some e)"
    by simp_all
  moreover from statement_failed(4) have "exec_ok c tr ?p" by (simp add: exec_ok_append)
  moreover from statement_failed(5) have "on_exec c (tr @ ?p) q = Some e" by simp
  moreover have "Commit \<notin> set ?p" "Rollback \<notin> set ?p" by auto
  ultimately show ?thesis by blast
qed (use assms in \<open>auto simp add: exec_ok_append\<close>)

lemma Create_statement_failure:
  assumes "resourceRedshiftSchemaGroupPrivilegeCreate c d tr = (res, d', tr')"
    and "\<not> exec_ok c tr (drop (length tr) tr')"
  shows "\<exists>p q e. tr' = tr @ p @ [Exec TX q, Rollback] \<and> exec_ok c tr p
           \<and> on_exec c (tr @ p) q = Some e \<and> res = Returned (Some e)
           \<and> Commit \<notin> set p \<and> Rollback \<notin> set p"
proof (cases rule: Create_cases [where c = c and d = d and tr = tr])
  case (statement_failed ps q e)
  let ?p = "[Begin, lookup_schema d, lookup_group d] @ map (Exec TX) ps"
  from statement_failed(3) assms(1) have
    "tr' = tr @ ?p @ [Exec TX q, Rollback]" "res = Returned (Some e)"
    by simp_all
  moreover from statement_failed(1) have "exec_ok c tr ?p" by (simp add: exec_ok_append)
  moreover from statement_failed(2) have "on_exec c (tr @ ?p) q = Some e" by simp
  moreover have "Commit \<notin> set ?p" "Rollback \<notin> set ?p" by auto
  ultimately show ?thesis by blast
qed (use assms in \<open>auto simp add: exec_ok_append\<close>)

lemma fixture_flags [simp]: "Get_bool (resource before desired) k = (k \<in> set desired)"
  by (simp add: Get_bool_def resource_def)

lemma fixture_changes [simp]:
  "HasChange (resource before desired) k = ((k \<in> set before) \<noteq> (k \<in> set desired))"
  by (simp add: HasChange_def resource_def)

lemma fixture_ids [simp]:
  "schema_id (resource before desired) = 100" "group_id (resource before desired) = 200"
  "res_id (resource before desired) = ''100_200''"
  by (simp_all add: resource_def)

lemma fixture_conn [simp]:
  "on_begin (warehouse qr er rb) t = None"
  "on_exec (warehouse qr er rb) t q = er (length t)"
  "on_query (warehouse qr er rb) t q args = qr (length t)"
  "on_rollback (warehouse qr er rb) t = rb"
  "on_commit (warehouse qr er rb) t = None"
  by (simp_all add: warehouse_def)

lemmas hooks =
  resourceRedshiftSchemaGroupPrivilegeCreate_def resourceRedshiftSchemaGroupPrivilegeUpdate_def
  resourceRedshiftSchemaGroupPrivilegeRead_def resourceRedshiftSchemaGroupPrivilegeDelete_def
  readRedshiftSchemaGroupPrivilege_def updatePrivilege_def updateSchemaPrivilege_def
  GetSchemaInfoForSchemaId_def GetGroupNameForGroupId_def validateGrants_def
  validateSchemaGrants_def GetOk_bool_def isSystemSchema_def scanned_or_zero_def prims
  lookups_def all_succeed_def fails_at_def

lemma readback_ok_append:
  "readback_ok c t (xs @ ys) = (readback_ok c t xs \<and> readback_ok c (t @ xs) ys)"
  by (induction c t xs rule: readback_ok.induct) simp_all

lemma readback_ok_execs: "readback_ok c t (map (Exec h) qs)"
  by (induction qs arbitrary: t) simp_all

lemma readback_failure_lookup:
  "readback_failure c t schemaInfoQuery args = None"
  "readback_failure c t groupNameQuery args = None"
  by (simp_all add: readback_failure_def query_texts_differ)

lemma readback_failure_tables:
  "readback_failure c t hasPrivilegeQuery [IntArg (schema_id d), IntArg (group_id d)]
     = real_error (tables_reply c d t)"
  by (simp add: readback_failure_def tables_reply_def)

lemma readback_failure_schema:
  "readback_failure c t hasSchemaPrivilegeQuery [IntArg (schema_id d), IntArg (group_id d)]
     = real_error (schema_reply c d t)"
  using query_texts_differ(5) by (simp add: readback_failure_def schema_reply_def)

lemma Create_commit_shape:
  assumes "resourceRedshiftSchemaGroupPrivilegeCreate c d tr = (res, d', tr')"
    and "Commit \<in> set (drop (length tr) tr')"
  shows "\<exists>p. tr' = tr @ p @ [read_tables d, read_schema d, Commit] \<and> hd p = Begin
           \<and> Commit \<notin> set p \<and> Rollback \<notin> set p \<and> exec_ok c tr p
           \<and> accepted (tables_reply c d (tr @ p))
           \<and> accepted (schema_reply c d (tr @ p @ [read_tables d]))"
proof (cases rule: Create_cases [where c = c and d = d and tr = tr])
  case (committed s owner g d2)
  let ?p = "[Begin, lookup_schema d, lookup_group d] @ map (Exec TX) (create_statements d s g)"
  from committed(10) assms(1) have "tr' = tr @ ?p @ [read_tables d, read_schema d, Commit]"
    by simp
  moreover have "hd ?p = Begin" "Commit \<notin> set ?p" "Rollback \<notin> set ?p" by auto
  moreover from committed(6) have "exec_ok c tr ?p" by (simp add: exec_ok_append)
  moreover from committed(7) have "accepted (tables_reply c d (tr @ ?p))" by simp
  moreover from committed(8) have "accepted (schema_reply c d (tr @ ?p @ [read_tables d]))"
    by simp
  ultimately show ?thesis by blast
qed (use assms in auto)

lemma Create_readback_failure:
  assumes "resourceRedshiftSchemaGroupPrivilegeCreate c d tr = (res, d', tr')"
    and "\<not> readback_ok c tr (drop (length tr) tr')"
  shows "\<exists>p q e. tr' = tr @ p @ [QueryRow TX q [IntArg (schema_id d), IntArg (group_id d)],
                                   Rollback, Rollback]
           \<and> readback_failure c (tr @ p) q [IntArg (schema_id d), IntArg (group_id d)] = Some e
           \<and> res = Returned (Some e) \<and> Commit \<notin> set p"
proof (cases rule: Create_cases [where c = c and d = d and tr = tr])
  case (tables_readback_failed s owner g e)
  let ?p = "[Begin, lookup_schema d, lookup_group d] @ map (Exec TX) (create_statements d s g)"
  from tables_readback_failed(6) assms(1) have
    "tr' = tr @ ?p @ [read_tables d, Rollback, Rollback]" "res = Returned (Some e)"
    by simp_all
  moreover from tables_readback_failed(4,5) have
    "readback_failure c (tr @ ?p) hasPrivilegeQuery [IntArg (schema_id d), IntArg (group_id d)] = Some e"
    by (simp add: readback_failure_tables real_error_Some)
  moreover have "Commit \<notin> set ?p" by auto
  ultimately show ?thesis by blast
next
  case (schema_readback_failed s owner g e)
  let ?p = "[Begin, lookup_schema d, lookup_group d] @ map (Exec TX) (create_statements d s g)
              @ [read_tables d]"
  from schema_readback_failed(7) assms(1) have
    "tr' = tr @ ?p @ [read_schema d, Rollback, Rollback]" "res = Returned (Some e)"
    by simp_all
  moreover from schema_readback_failed(5,6) have
    "readback_failure c (tr @ ?p) hasSchemaPrivilegeQuery [IntArg (schema_id d), IntArg (group_id d)] = Some e"
    by (simp add: readback_failure_schema real_error_Some)
  moreover have "Commit \<notin> set ?p" by auto
  ultimately show ?thesis by blast
next
  case (committed s owner g d2)
  from committed(10) assms(1) have
    tr': "tr' = tr @ [Begin, lookup_schema d, lookup_group d]
                @ map (Exec TX) (create_statements d s g) @ [read_tables d, read_schema d, Commit]"
    by simp
  from committed(7,8) have "readback_ok c tr (drop (length tr) tr')"
    unfolding tr'
    by (simp add: readback_ok_append readback_ok_execs readback_failure_lookup
          readback_failure_tables readback_failure_schema real_error_accepted)
  with assms(2) show ?thesis by simp
qed (use assms in \<open>auto simp add: readback_ok_append readback_ok_execs readback_failure_lookup\<close>)

lemma Create_performs_readback:
  assumes run: "resourceRedshiftSchemaGroupPrivilegeCreate c d tr = (res, d', tr')"
    and began: "on_begin c tr = None" and some: "\<not> no_privileges d"
    and schema: "schema_lookup c d (tr @ [Begin]) = Inr (s, owner)" and notsys: "owner \<noteq> 1"
    and group: "group_lookup c d (tr @ [Begin, lookup_schema d]) = Inr g"
    and ok: "exec_ok c tr (drop (length tr) tr')"
  shows "(\<exists>rest. tr' = tr @ [Begin, lookup_schema d, lookup_group d]
                      @ map (Exec TX) (create_statements d s g) @ read_tables d # rest)
       \<and> (accepted (tables_reply c d (tr @ [Begin, lookup_schema d, lookup_group d]
                                          @ map (Exec TX) (create_statements d s g))) \<longrightarrow>
            (\<exists>rest. tr' = tr @ [Begin, lookup_schema d, lookup_group d]
                      @ map (Exec TX) (create_statements d s g)
                      @ read_tables d # read_schema d # rest))
       \<and> (accepted (tables_reply c d (tr @ [Begin, lookup_schema d, lookup_group d]
                                          @ map (Exec TX) (create_statements d s g)))
          \<and> accepted (schema_reply c d (tr @ [Begin, lookup_schema d, lookup_group d]
                                          @ map (Exec TX) (create_statements d s g)
                                          @ [read_tables d])) \<longrightarrow>
            tr' = tr @ [Begin, lookup_schema d, lookup_group d]
                      @ map (Exec TX) (create_statements d s g)
                      @ [read_tables d, read_schema d, Commit])"
proof (cases rule: Create_cases [where c = c and d = d and tr = tr])
  case (panic e)
  with began show ?thesis by simp
next
  case rejected
  with some show ?thesis by (simp add: no_privileges_iff)
next
  case (schema_unresolved e)
  with schema show ?thesis by simp
next
  case (system_schema s')
  with schema notsys show ?thesis by simp
next
  case (group_unresolved e)
  with group show ?thesis by simp
next
  case (statement_failed ps q e)
  from statement_failed(3) run have
    "drop (length tr) tr'
       = ([Begin, lookup_schema d, lookup_group d] @ map (Exec TX) ps) @ [Exec TX q, Rollback]"
    by auto
  with ok have
    "exec_ok c tr (([Begin, lookup_schema d, lookup_group d] @ map (Exec TX) ps)
                    @ [Exec TX q, Rollback])"
    by simp
  then have "on_exec c (tr @ [Begin, lookup_schema d, lookup_group d] @ map (Exec TX) ps) q = None"
    unfolding exec_ok_append [of c tr "[Begin, lookup_schema d, lookup_group d] @ map (Exec TX) ps"]
    by simp
  with statement_failed(2) show ?thesis by simp
next
  case (tables_readback_failed s' owner' g' e)
  with schema group have eq: "s' = s" "g' = g" by simp_all
  from tables_readback_failed(4,5) have
    "\<not> accepted (tables_reply c d (tr @ [Begin, lookup_schema d, lookup_group d]
                                     @ map (Exec TX) (create_statements d s g)))"
    unfolding eq by (simp add: accepted_def)
  with tables_readback_failed(6) run show ?thesis unfolding eq by auto
next
  case (schema_readback_failed s' owner' g' e)
  with schema group have eq: "s' = s" "g' = g" by simp_all
  from schema_readback_failed(5,6) have
    "\<not> accepted (schema_reply c d (tr @ [Begin, lookup_schema d, lookup_group d]
                                     @ map (Exec TX) (create_statements d s g) @ [read_tables d]))"
    unfolding eq by (simp add: accepted_def)
  with schema_readback_failed(7) run show ?thesis unfolding eq by auto
next
  case (committed s' owner' g' d2)
  with schema group have eq: "s' = s" "g' = g" by simp_all
  from committed(10) run show ?thesis unfolding eq by auto
qed

lemma Create_success_commits:
  assumes "resourceRedshiftSchemaGroupPrivilegeCreate c d tr = (Returned None, d', tr')"
  shows "Commit \<in> set (drop (length tr) tr')"
  by (cases rule: Create_cases [where c = c and d = d and tr = tr]) (use assms in auto)

lemma Update_statements_run:
  assumes "resourceRedshiftSchemaGroupPrivilegeUpdate c d tr = (res, d', tr')"
    and "on_begin c tr = None" and "\<not> no_privileges d"
    and "schema_lookup c d (tr @ [Begin]) = Inr (s, owner)"
    and "group_lookup c d (tr @ [Begin, lookup_schema d]) = Inr g"
    and "exec_ok c tr (drop (length tr) tr')"
  shows "execs (drop (length tr) tr') = update_statements d s g"
proof (cases rule: Update_cases [where c = c and d = d and tr = tr])
  case (statement_failed s' owner' g' ps q rest e)
  from statement_failed(6) assms(1) have
    "drop (length tr) tr'
       = ([Begin, lookup_schema d, lookup_group d] @ map (Exec TX) ps) @ [Exec TX q, Rollback]"
    by auto
  with assms(6) have
    "exec_ok c tr (([Begin, lookup_schema d, lookup_group d] @ map (Exec TX) ps)
                    @ [Exec TX q, Rollback])"
    by simp
  then have "on_exec c (tr @ [Begin, lookup_schema d, lookup_group d] @ map (Exec TX) ps) q = None"
    unfolding exec_ok_append [of c tr "[Begin, lookup_schema d, lookup_group d] @ map (Exec TX) ps"]
    by simp
  with statement_failed(5) show ?thesis by simp
qed (use assms in \<open>auto simp add: no_privileges_iff execs_append execs_map_Exec\<close>)

lemma unchanged_no_statements:
  assumes "\<forall>k \<in> set all_flags. prior d k = planned d k"
  shows "update_statements d s g = []"
  using assms
  by (simp add: update_statements_def table_flags_def changed_table_flag_def
        changed_schema_flag_def HasChange_def all_flags_def)

lemma Set_bool_get: "Get_bool (Set_bool d k v) k' = (if k' = k then v else Get_bool d k')"
  by (simp add: Set_bool_def Get_bool_def split: option.splits)

lemma Read_keeps_id:
  "res_id (fst (snd (resourceRedshiftSchemaGroupPrivilegeRead c d tr))) = res_id d"
proof (cases "on_begin c tr")
  case None
  show ?thesis
    by (cases rule: read_cases [where c = c and d = d and t = "tr @ [Begin]"])
       (simp_all add: resourceRedshiftSchemaGroupPrivilegeRead_def DB_Begin_def rb Tx_Commit_def None
          split: option.splits)
next
  case (Some e)
  then show ?thesis by (simp add: resourceRedshiftSchemaGroupPrivilegeRead_def DB_Begin_def)
qed

lemma Update_keeps_id:
  "res_id (fst (snd (resourceRedshiftSchemaGroupPrivilegeUpdate c d tr))) = res_id d"
  by (cases rule: Update_cases [where c = c and d = d and tr = tr]) simp_all

lemma Delete_keeps_data:
  "fst (snd (resourceRedshiftSchemaGroupPrivilegeDelete c d tr)) = d"
  by (simp add: resourceRedshiftSchemaGroupPrivilegeDelete_def GetSchemaInfoForSchemaId_def
        GetGroupNameForGroupId_def prims split: option.splits sum.splits prod.splits)

lemma Create_sets_id:
  assumes "resourceRedshiftSchemaGroupPrivilegeCreate c d tr = (Returned None, d', tr')"
  shows "res_id d' = Sprint (schema_id d) @ ''_'' @ Sprint (group_id d)"
  by (cases rule: Create_cases [where c = c and d = d and tr = tr]) (use assms in auto)

lemma existence_query_compares_identifier:
  "\<exists>a b. privilegeExistenceQuery = a @ identifier_comparison @ b"
  unfolding privilegeExistenceQuery_def identifier_comparison_def
  by (rule exI [of _ "''select distinct id from ( select nsp.oid || '_' || pu.grosysid as id from pg_group pu, pg_default_acl acl, pg_namespace nsp where acl.defaclnamespace = nsp.oid and array_to_string(acl.defaclacl, '|') LIKE '%' || 'group ' || pu.groname || '=%' and ''"],
      rule exI [of _ "'' union select nsp.oid || '_' || pu.grosysid as id from pg_group pu, pg_namespace nsp where array_to_string(nsp.nspacl, '|') LIKE '%' || 'group ' || pu.groname || '=%' and nsp.oid || '_' || pu.grosysid = $1 )''"])
     simp

section \<open>Validation of the desired privileges\<close>

text \<open>
  Claim C1, as the code has it. For every desired privilege set with zero true flags,
  when \<open>Begin\<close> succeeds, both Create and Update fail with the error
  "Must have at least 1 privilege" and make no \<open>Exec\<close> and no \<open>QueryRow\<close> call. The
  transaction is opened before the check, and the rejection rolls it back: the calls on
  the connection are exactly \<open>Begin\<close>, \<open>Rollback\<close>.
\<close>

theorem zero_privileges_rejected_after_begin:
  assumes "no_privileges d" and "on_begin c tr = None"
  shows "resourceRedshiftSchemaGroupPrivilegeCreate c d tr
           = (Returned (Some (NewError ''Must have at least 1 privilege'')), d, tr @ [Begin, Rollback])
       \<and> resourceRedshiftSchemaGroupPrivilegeUpdate c d tr
           = (Returned (Some (NewError ''Must have at least 1 privilege'')), d, tr @ [Begin, Rollback])"
  using assms
  by (simp add: no_privileges_iff resourceRedshiftSchemaGroupPrivilegeCreate_def
        resourceRedshiftSchemaGroupPrivilegeUpdate_def DB_Begin_def rb)

theorem zero_privileges_rejected_after_begin_witness:
  "no_privileges (resource [] [])
   \<and> on_begin (warehouse (lookups 100) all_succeed None) [] = None
   \<and> resourceRedshiftSchemaGroupPrivilegeCreate (warehouse (lookups 100) all_succeed None)
         (resource [] []) []
       = (Returned (Some (NewError ''Must have at least 1 privilege'')), resource [] [],
          [Begin, Rollback])
   \<and> resourceRedshiftSchemaGroupPrivilegeUpdate (warehouse (lookups 100) all_succeed None)
         (resource [] []) []
       = (Returned (Some (NewError ''Must have at least 1 privilege'')), resource [] [],
          [Begin, Rollback])"
proof -
  have h1: "no_privileges (resource [] [])" by (simp add: no_privileges_def)
  have h2: "on_begin (warehouse (lookups 100) all_succeed None) [] = None" by simp
  show ?thesis using h1 h2 zero_privileges_rejected_after_begin [OF h1 h2] by simp
qed

text \<open>
  The claim as first stated says that no transaction is opened before the rejection.
  On a resource with no true flag, Create answers with the validation error after it has
  called \<open>Begin\<close>.
\<close>

theorem zero_privileges_transaction_opened:
  "no_privileges (resource [] [])
   \<and> fst (resourceRedshiftSchemaGroupPrivilegeCreate (warehouse (lookups 100) all_succeed None)
            (resource [] []) [])
       = Returned (Some (NewError ''Must have at least 1 privilege''))
   \<and> snd (snd (resourceRedshiftSchemaGroupPrivilegeCreate
                  (warehouse (lookups 100) all_succeed None) (resource [] []) []))
       = [Begin, Rollback]"
  by (simp add: hooks no_privileges_def)

section \<open>The system-schema guard\<close>

text \<open>
  Claim C2, as the code has it. In Create, when \<open>Begin\<close> succeeds and the schema's
  owner resolves to the reserved system owner 1, the hook fails with an error built by
  \<open>NewError\<close> whatever flags are requested (the validation error when no flag is true,
  "Privilege creation is not allowed for system schemas" otherwise), and no statement is
  executed.
\<close>

theorem system_schema_blocks_create:
  assumes "on_begin c tr = None" and "schema_lookup c d (tr @ [Begin]) = Inr (s, 1)"
  shows "resourceRedshiftSchemaGroupPrivilegeCreate c d tr =
           (if no_privileges d
            then (Returned (Some (NewError ''Must have at least 1 privilege'')), d,
                  tr @ [Begin, Rollback])
            else (Returned (Some (NewError
                    (''Privilege creation is not allowed for system schemas, schema='' @ s))), d,
                  tr @ [Begin, lookup_schema d, Rollback]))
       \<and> execs (snd (snd (resourceRedshiftSchemaGroupPrivilegeCreate c d tr))) = execs tr"
  using assms
  by (auto simp add: no_privileges_iff resourceRedshiftSchemaGroupPrivilegeCreate_def
        DB_Begin_def rb GetSchemaInfoForSchemaId_def Query_Row_def schema_lookup_def
        isSystemSchema_def execs_append)

theorem system_schema_blocks_create_witness:
  "on_begin (warehouse (lookups 1) all_succeed None) [] = None
   \<and> schema_lookup (warehouse (lookups 1) all_succeed None) (resource [] [''select'']) [Begin]
       = Inr (''s'', 1)
   \<and> resourceRedshiftSchemaGroupPrivilegeCreate (warehouse (lookups 1) all_succeed None)
         (resource [] [''select'']) []
       = (Returned (Some (NewError
            ''Privilege creation is not allowed for system schemas, schema=s'')),
          resource [] [''select''], [Begin, lookup_schema (resource [] [''select'']), Rollback])
   \<and> execs (snd (snd (resourceRedshiftSchemaGroupPrivilegeCreate
                         (warehouse (lookups 1) all_succeed None) (resource [] [''select'']) [])))
       = []"
proof -
  have h1: "on_begin (warehouse (lookups 1) all_succeed None) [] = None" by simp
  have h2: "schema_lookup (warehouse (lookups 1) all_succeed None) (resource [] [''select''])
              ([] @ [Begin]) = Inr (''s'', 1)"
    by (simp add: schema_lookup_def lookups_def)
  have h3: "\<not> no_privileges (resource [] [''select''])"
    by (simp add: no_privileges_def all_flags_def)
  show ?thesis using h1 h2 h3 system_schema_blocks_create [OF h1 h2] by simp
qed

text \<open>
  The claim as first stated includes Update. On a schema owned by the system owner,
  Update runs its GRANT and REVOKE statements and commits.
\<close>

theorem system_schema_update_runs_grants:
  "schema_lookup (warehouse (lookups 1) all_succeed None)
     (resource [''delete''] [''select'', ''usage'']) [Begin] = Inr (''s'', 1)
   \<and> resourceRedshiftSchemaGroupPrivilegeUpdate
       (warehouse (lookups 1) all_succeed None)
       (resource [''delete''] [''select'', ''usage'']) []
     = (Returned None, resource [''delete''] [''select'', ''usage''],
        [Begin, lookup_schema (resource [''delete''] [''select'', ''usage'']),
         lookup_group (resource [''delete''] [''select'', ''usage'']),
         Exec TX ''GRANT SELECT ON ALL TABLES IN SCHEMA s TO  GROUP g'',
         Exec TX ''ALTER DEFAULT PRIVILEGES IN SCHEMA s GRANT SELECT ON TABLES TO GROUP g'',
         Exec TX ''REVOKE DELETE ON ALL TABLES IN SCHEMA s FROM GROUP g'',
         Exec TX ''ALTER DEFAULT PRIVILEGES IN SCHEMA s REVOKE DELETE ON TABLES FROM GROUP g'',
         Exec TX ''GRANT USAGE ON SCHEMA s TO  GROUP g'', Commit])"
  by (simp add: hooks schema_lookup_def)

section \<open>The statements of Create\<close>

text \<open>
  Claim C3, as the code has it. For every desired privilege set with at least one true
  flag, when \<open>Begin\<close> succeeds, the schema (not a system schema) and the group resolve to
  the names \<open>s\<close> and \<open>g\<close>, and no statement fails, the statements Create executes are:
  one GRANT with the comma-separated list of all true table-level flags and one ALTER
  DEFAULT PRIVILEGES with the same list (both only if a table-level flag is true),
  followed by one GRANT ON SCHEMA with the comma-separated list of all true schema-level
  flags (only if one is true), and nothing else.
\<close>

theorem create_statements_batched:
  assumes "resourceRedshiftSchemaGroupPrivilegeCreate c d tr = (res, d', tr')"
    and "on_begin c tr = None" and "\<not> no_privileges d"
    and "schema_lookup c d (tr @ [Begin]) = Inr (s, owner)" and "owner \<noteq> 1"
    and "group_lookup c d (tr @ [Begin, lookup_schema d]) = Inr g"
    and "exec_ok c tr (drop (length tr) tr')"
  shows "execs (drop (length tr) tr') = create_statements d s g
       \<and> length (create_statements d s g)
           = (if true_table_privileges d = [] then 0 else 2)
             + (if true_schema_privileges d = [] then 0 else 1)"
proof -
  have "execs (drop (length tr) tr') = create_statements d s g"
  proof (cases rule: Create_cases [where c = c and d = d and tr = tr])
    case (statement_failed ps q e)
    from statement_failed(3) assms(1) have
      "drop (length tr) tr'
         = ([Begin, lookup_schema d, lookup_group d] @ map (Exec TX) ps) @ [Exec TX q, Rollback]"
      by auto
    with assms(7) have
      "exec_ok c tr (([Begin, lookup_schema d, lookup_group d] @ map (Exec TX) ps)
                      @ [Exec TX q, Rollback])"
      by simp
    then have "on_exec c (tr @ [Begin, lookup_schema d, lookup_group d] @ map (Exec TX) ps) q = None"
      unfolding exec_ok_append [of c tr "[Begin, lookup_schema d, lookup_group d] @ map (Exec TX) ps"]
      by simp
    with statement_failed(2) show ?thesis by simp
  qed (use assms in \<open>auto simp add: no_privileges_iff execs_append execs_map_Exec\<close>)
  then show ?thesis by (simp add: create_statements_def)
qed

theorem create_statements_batched_witness:
  "execs (snd (snd (resourceRedshiftSchemaGroupPrivilegeCreate
       (warehouse (lookups 100) all_succeed None) (resource [] [''select'', ''insert'']) [])))
   = [''GRANT SELECT,INSERT ON ALL TABLES IN SCHEMA s TO GROUP g'',
      ''ALTER DEFAULT PRIVILEGES IN SCHEMA s GRANT SELECT,INSERT ON TABLES TO GROUP g'']"
proof -
  let ?c = "warehouse (lookups 100) all_succeed None"
  let ?d = "resource [] [''select'', ''insert'']"
  obtain res d' tr' where run: "resourceRedshiftSchemaGroupPrivilegeCreate ?c ?d [] = (res, d', tr')"
    by (cases "resourceRedshiftSchemaGroupPrivilegeCreate ?c ?d []")
  have h2: "on_begin ?c [] = None" by simp
  have h3: "\<not> no_privileges ?d" by (simp add: no_privileges_def all_flags_def)
  have h4: "schema_lookup ?c ?d ([] @ [Begin]) = Inr (''s'', 100)"
    by (simp add: schema_lookup_def lookups_def)
  have h5: "(100::int) \<noteq> 1" by simp
  have h6: "group_lookup ?c ?d ([] @ [Begin, lookup_schema ?d]) = Inr ''g''"
    by (simp add: group_lookup_def lookups_def)
  have h7: "exec_ok ?c [] (drop (length ([]::call list)) tr')"
    using run by (auto simp add: hooks Let_def SetId_def Set_bool_def)
  from create_statements_batched [OF run h2 h3 h4 h5 h6 h7] run show ?thesis
    by (simp add: create_statements_def true_table_privileges_def true_schema_privileges_def
          table_flags_def)
qed

text \<open>
  The claim as first stated asks for one GRANT per true schema-level flag. With both
  \<open>usage\<close> and \<open>create\<close> true, Create executes a single combined statement.
\<close>

theorem create_schema_flags_one_statement:
  "Get_bool (resource [] [''usage'', ''create'']) ''usage''
   \<and> Get_bool (resource [] [''usage'', ''create'']) ''create''
   \<and> fst (resourceRedshiftSchemaGroupPrivilegeCreate
            (warehouse (lookups 100) all_succeed None) (resource [] [''usage'', ''create'']) [])
       = Returned None
   \<and> execs (snd (snd (resourceRedshiftSchemaGroupPrivilegeCreate
            (warehouse (lookups 100) all_succeed None) (resource [] [''usage'', ''create'']) [])))
       = [''GRANT CREATE,USAGE ON SCHEMA s TO GROUP g'']"
  by (simp add: hooks Let_def SetId_def Set_bool_def)

section \<open>The statements of Update\<close>

text \<open>
  Claim C4, as the code has it. On an Update whose desired set has at least one true flag,
  a changed table-level flag produces exactly two statements, the GRANT (or REVOKE) on all
  tables of the schema and the matching ALTER DEFAULT PRIVILEGES GRANT (or REVOKE); a
  changed schema-level flag produces exactly one GRANT or REVOKE on the schema; an
  unchanged flag produces none. This holds of the two helpers whatever the desired set is,
  and of the hook as a whole once it has passed the validation and resolved the names:
  when no statement fails, the statements it executes are those of the changed flags, in
  the order select, insert, update, delete, references, usage, create.
\<close>

theorem update_statements_per_changed_flag:
  "(\<not> HasChange d k \<longrightarrow> updatePrivilege c d k privilege s g t = (None, t)
                         \<and> updateSchemaPrivilege c d k privilege s g t = (None, t))
   \<and> (HasChange d k \<and> fst (updatePrivilege c d k privilege s g t) = None \<longrightarrow>
        snd (updatePrivilege c d k privilege s g t)
          = t @ map (Exec TX) (table_flag_statements (Get_bool d k) privilege s g))
   \<and> (HasChange d k \<longrightarrow>
        snd (updateSchemaPrivilege c d k privilege s g t)
          = t @ map (Exec TX) (schema_flag_statements (Get_bool d k) privilege s g))
   \<and> length (table_flag_statements target privilege s g) = 2
   \<and> length (schema_flag_statements target privilege s g) = 1
   \<and> (resourceRedshiftSchemaGroupPrivilegeUpdate c d tr = (res, d', tr')
        \<and> on_begin c tr = None \<and> \<not> no_privileges d
        \<and> schema_lookup c d (tr @ [Begin]) = Inr (s, owner)
        \<and> group_lookup c d (tr @ [Begin, lookup_schema d]) = Inr g
        \<and> exec_ok c tr (drop (length tr) tr') \<longrightarrow>
        execs (drop (length tr) tr') = update_statements d s g)"
proof -
  have "\<not> HasChange d k \<longrightarrow> updatePrivilege c d k privilege s g t = (None, t)
                         \<and> updateSchemaPrivilege c d k privilege s g t = (None, t)"
    by (simp add: updatePrivilege_def updateSchemaPrivilege_def)
  moreover have "HasChange d k \<and> fst (updatePrivilege c d k privilege s g t) = None \<longrightarrow>
        snd (updatePrivilege c d k privilege s g t)
          = t @ map (Exec TX) (table_flag_statements (Get_bool d k) privilege s g)"
    by (simp add: updatePrivilege_def table_flag_statements_def Tx_Exec_def split: option.splits)
  moreover have "HasChange d k \<longrightarrow>
        snd (updateSchemaPrivilege c d k privilege s g t)
          = t @ map (Exec TX) (schema_flag_statements (Get_bool d k) privilege s g)"
    by (simp add: updateSchemaPrivilege_def schema_flag_statements_def Tx_Exec_def
          split: option.splits)
  moreover have "length (table_flag_statements target privilege s g) = 2"
    "length (schema_flag_statements target privilege s g) = 1"
    by (simp_all add: table_flag_statements_def schema_flag_statements_def)
  ultimately show ?thesis using Update_statements_run [of c d tr res d' tr' s owner g] by blast
qed

theorem update_statements_per_changed_flag_witness:
  "execs (snd (snd (resourceRedshiftSchemaGroupPrivilegeUpdate
       (warehouse (lookups 100) all_succeed None) (resource [''delete''] [''select'', ''usage'']) [])))
   = [''GRANT SELECT ON ALL TABLES IN SCHEMA s TO  GROUP g'',
      ''ALTER DEFAULT PRIVILEGES IN SCHEMA s GRANT SELECT ON TABLES TO GROUP g'',
      ''REVOKE DELETE ON ALL TABLES IN SCHEMA s FROM GROUP g'',
      ''ALTER DEFAULT PRIVILEGES IN SCHEMA s REVOKE DELETE ON TABLES FROM GROUP g'',
      ''GRANT USAGE ON SCHEMA s TO  GROUP g'']
   \<and> updatePrivilege (warehouse (lookups 100) all_succeed None)
        (resource [''delete''] [''select'', ''usage'']) ''insert'' ''INSERT'' ''s'' ''g'' [Begin]
       = (None, [Begin])
   \<and> updateSchemaPrivilege (warehouse (lookups 100) all_succeed None)
        (resource [''delete''] [''select'', ''usage'']) ''create'' ''CREATE'' ''s'' ''g'' [Begin]
       = (None, [Begin])
   \<and> snd (updatePrivilege (warehouse (lookups 100) all_succeed None)
        (resource [''delete''] [''select'', ''usage'']) ''delete'' ''DELETE'' ''s'' ''g'' [Begin])
       = [Begin, Exec TX ''REVOKE DELETE ON ALL TABLES IN SCHEMA s FROM GROUP g'',
          Exec TX ''ALTER DEFAULT PRIVILEGES IN SCHEMA s REVOKE DELETE ON TABLES FROM GROUP g'']
   \<and> snd (updateSchemaPrivilege (warehouse (lookups 100) all_succeed None)
        (resource [''delete''] [''select'', ''usage'']) ''usage'' ''USAGE'' ''s'' ''g'' [Begin])
       = [Begin, Exec TX ''GRANT USAGE ON SCHEMA s TO  GROUP g'']"
proof -
  let ?c = "warehouse (lookups 100) all_succeed None"
  let ?d = "resource [''delete''] [''select'', ''usage'']"
  obtain res d' tr' where run: "resourceRedshiftSchemaGroupPrivilegeUpdate ?c ?d [] = (res, d', tr')"
    by (cases "resourceRedshiftSchemaGroupPrivilegeUpdate ?c ?d []")
  have h2: "on_begin ?c [] = None" by simp
  have h3: "\<not> no_privileges ?d" by (simp add: no_privileges_def all_flags_def)
  have h4: "schema_lookup ?c ?d ([] @ [Begin]) = Inr (''s'', 100)"
    by (simp add: schema_lookup_def lookups_def)
  have h6: "group_lookup ?c ?d ([] @ [Begin, lookup_schema ?d]) = Inr ''g''"
    by (simp add: group_lookup_def lookups_def)
  have h7: "exec_ok ?c [] (drop (length ([]::call list)) tr')"
    using run by (auto simp add: hooks)
  have n1: "\<not> HasChange ?d ''insert''" "\<not> HasChange ?d ''create''" by simp_all
  have y1: "HasChange ?d ''delete''" "HasChange ?d ''usage''" by simp_all
  have f1: "fst (updatePrivilege ?c ?d ''delete'' ''DELETE'' ''s'' ''g'' [Begin]) = None"
    by (simp add: hooks)
  note th = update_statements_per_changed_flag
  from th [of ?d "''insert''" ?c "''INSERT''" "''s''" "''g''" "[Begin]" True "[]" res d' tr' 100]
       th [of ?d "''create''" ?c "''CREATE''" "''s''" "''g''" "[Begin]" True "[]" res d' tr' 100]
       th [of ?d "''delete''" ?c "''DELETE''" "''s''" "''g''" "[Begin]" True "[]" res d' tr' 100]
       th [of ?d "''usage''" ?c "''USAGE''" "''s''" "''g''" "[Begin]" True "[]" res d' tr' 100]
       run h2 h3 h4 h6 h7 n1 y1 f1
  show ?thesis
    by (simp add: update_statements_def table_flags_def changed_table_flag_def
          changed_schema_flag_def table_flag_statements_def schema_flag_statements_def)
qed

text \<open>
  The claim as first stated has no condition on the desired set. When the only true flag
  is revoked, that flag is changed, yet Update is rejected by the validation and executes
  no REVOKE.
\<close>

theorem update_rejects_revoking_last_privilege:
  "HasChange (resource [''select''] []) ''select''
   \<and> resourceRedshiftSchemaGroupPrivilegeUpdate (warehouse (lookups 100) all_succeed None)
         (resource [''select''] []) []
       = (Returned (Some (NewError ''Must have at least 1 privilege'')),
          resource [''select''] [], [Begin, Rollback])"
  by (simp add: hooks)

section \<open>Failure of a statement\<close>

text \<open>
  Claim C5. If a statement executed by Create or Update fails, the hook stops there: the
  failed \<open>Exec\<close> is followed by \<open>Rollback\<close> and by nothing else, the transaction is never
  committed, every earlier statement had succeeded, and the error returned is the error of
  the failed statement, whatever \<open>Rollback\<close> answers.
\<close>

theorem statement_failure_rolls_back:
  assumes "hook = resourceRedshiftSchemaGroupPrivilegeCreate
           \<or> hook = resourceRedshiftSchemaGroupPrivilegeUpdate"
    and "hook c d tr = (res, d', tr')"
    and "\<not> exec_ok c tr (drop (length tr) tr')"
  shows "\<exists>p q e. tr' = tr @ p @ [Exec TX q, Rollback] \<and> exec_ok c tr p
           \<and> on_exec c (tr @ p) q = Some e \<and> res = Returned (Some e)
           \<and> Commit \<notin> set p \<and> Rollback \<notin> set p"
  using assms Create_statement_failure [of c d tr res d' tr']
    Update_statement_failure [of c d tr res d' tr']
  by blast

theorem statement_failure_rolls_back_witness:
  "\<exists>p q e. [Begin, lookup_schema (resource [''delete''] [''select'', ''usage'']),
       lookup_group (resource [''delete''] [''select'', ''usage'']),
       Exec TX ''GRANT SELECT ON ALL TABLES IN SCHEMA s TO  GROUP g'',
       Exec TX ''ALTER DEFAULT PRIVILEGES IN SCHEMA s GRANT SELECT ON TABLES TO GROUP g'',
       Exec TX ''REVOKE DELETE ON ALL TABLES IN SCHEMA s FROM GROUP g'', Rollback]
        = [] @ p @ [Exec TX q, Rollback]
     \<and> exec_ok (warehouse (lookups 100) (fails_at 5) (Some (SqlError ''rollback failed''))) [] p
     \<and> on_exec (warehouse (lookups 100) (fails_at 5) (Some (SqlError ''rollback failed'')))
          ([] @ p) q = Some e
     \<and> Returned (Some (SqlError ''permission denied'')) = Returned (Some e)
     \<and> Commit \<notin> set p \<and> Rollback \<notin> set p"
proof -
  let ?c = "warehouse (lookups 100) (fails_at 5) (Some (SqlError ''rollback failed''))"
  let ?d = "resource [''delete''] [''select'', ''usage'']"
  let ?tr = "[Begin, lookup_schema ?d, lookup_group ?d,
       Exec TX ''GRANT SELECT ON ALL TABLES IN SCHEMA s TO  GROUP g'',
       Exec TX ''ALTER DEFAULT PRIVILEGES IN SCHEMA s GRANT SELECT ON TABLES TO GROUP g'',
       Exec TX ''REVOKE DELETE ON ALL TABLES IN SCHEMA s FROM GROUP g'', Rollback]"
  have run: "resourceRedshiftSchemaGroupPrivilegeUpdate ?c ?d []
               = (Returned (Some (SqlError ''permission denied'')), ?d, ?tr)"
    by (simp add: hooks)
  have failed: "\<not> exec_ok ?c [] (drop (length ([]::call list)) ?tr)"
    by (simp add: fails_at_def)
  show ?thesis
    by (rule statement_failure_rolls_back [OF disjI2 [OF refl] run failed])
qed

section \<open>Read-back before commit\<close>

text \<open>
  Claim C6, as the code has it. In Create, once the names are resolved and every statement
  has succeeded, the read-back is performed: the first read-back query is the next call on
  the transaction, the second follows when the first is answered by a row or by no row,
  and the commit follows when the second is too. Create returns success only after a
  commit. A commit happens only as the call right after the two read-back queries, made on
  the transaction opened by \<open>Begin\<close> and still open (no commit or rollback before them),
  after every statement has succeeded, both answered by a row or by no row. If a read-back
  query fails, the transaction is rolled back, never committed, and the error of that
  query is returned.
\<close>

theorem create_commits_only_after_readback:
  assumes "resourceRedshiftSchemaGroupPrivilegeCreate c d tr = (res, d', tr')"
  shows "(on_begin c tr = None \<and> \<not> no_privileges d
            \<and> schema_lookup c d (tr @ [Begin]) = Inr (s, owner) \<and> owner \<noteq> 1
            \<and> group_lookup c d (tr @ [Begin, lookup_schema d]) = Inr g
            \<and> exec_ok c tr (drop (length tr) tr') \<longrightarrow>
           (\<exists>rest. tr' = tr @ [Begin, lookup_schema d, lookup_group d]
                      @ map (Exec TX) (create_statements d s g) @ read_tables d # rest)
         \<and> (accepted (tables_reply c d (tr @ [Begin, lookup_schema d, lookup_group d]
                                            @ map (Exec TX) (create_statements d s g))) \<longrightarrow>
              (\<exists>rest. tr' = tr @ [Begin, lookup_schema d, lookup_group d]
                        @ map (Exec TX) (create_statements d s g)
                        @ read_tables d # read_schema d # rest))
         \<and> (accepted (tables_reply c d (tr @ [Begin, lookup_schema d, lookup_group d]
                                            @ map (Exec TX) (create_statements d s g)))
            \<and> accepted (schema_reply c d (tr @ [Begin, lookup_schema d, lookup_group d]
                                            @ map (Exec TX) (create_statements d s g)
                                            @ [read_tables d])) \<longrightarrow>
              tr' = tr @ [Begin, lookup_schema d, lookup_group d]
                        @ map (Exec TX) (create_statements d s g)
                        @ [read_tables d, read_schema d, Commit]))
       \<and> (res = Returned None \<longrightarrow> Commit \<in> set (drop (length tr) tr'))
       \<and> (Commit \<in> set (drop (length tr) tr') \<longrightarrow>
           (\<exists>p. tr' = tr @ p @ [read_tables d, read_schema d, Commit] \<and> hd p = Begin
              \<and> Commit \<notin> set p \<and> Rollback \<notin> set p \<and> exec_ok c tr p
              \<and> accepted (tables_reply c d (tr @ p))
              \<and> accepted (schema_reply c d (tr @ p @ [read_tables d]))))
       \<and> (\<not> readback_ok c tr (drop (length tr) tr') \<longrightarrow>
           (\<exists>p q e. tr' = tr @ p @ [QueryRow TX q [IntArg (schema_id d), IntArg (group_id d)],
                                     Rollback, Rollback]
              \<and> readback_failure c (tr @ p) q [IntArg (schema_id d), IntArg (group_id d)] = Some e
              \<and> res = Returned (Some e) \<and> Commit \<notin> set p))"
proof -
  have performed: "on_begin c tr = None \<and> \<not> no_privileges d
            \<and> schema_lookup c d (tr @ [Begin]) = Inr (s, owner) \<and> owner \<noteq> 1
            \<and> group_lookup c d (tr @ [Begin, lookup_schema d]) = Inr g
            \<and> exec_ok c tr (drop (length tr) tr') \<longrightarrow>
           (\<exists>rest. tr' = tr @ [Begin, lookup_schema d, lookup_group d]
                      @ map (Exec TX) (create_statements d s g) @ read_tables d # rest)
         \<and> (accepted (tables_reply c d (tr @ [Begin, lookup_schema d, lookup_group d]
                                            @ map (Exec TX) (create_statements d s g))) \<longrightarrow>
              (\<exists>rest. tr' = tr @ [Begin, lookup_schema d, lookup_group d]
                        @ map (Exec TX) (create_statements d s g)
                        @ read_tables d # read_schema d # rest))
         \<and> (accepted (tables_reply c d (tr @ [Begin, lookup_schema d, lookup_group d]
                                            @ map (Exec TX) (create_statements d s g)))
            \<and> accepted (schema_reply c d (tr @ [Begin, lookup_schema d, lookup_group d]
                                            @ map (Exec TX) (create_statements d s g)
                                            @ [read_tables d])) \<longrightarrow>
              tr' = tr @ [Begin, lookup_schema d, lookup_group d]
                        @ map (Exec TX) (create_statements d s g)
                        @ [read_tables d, read_schema d, Commit])"
    using Create_performs_readback [OF assms, of s owner g] by blast
  have success: "res = Returned None \<longrightarrow> Commit \<in> set (drop (length tr) tr')"
    using Create_success_commits [of c d tr d' tr'] assms by blast
  from performed success Create_commit_shape [OF assms] Create_readback_failure [OF assms]
  show ?thesis by blast
qed

theorem create_commits_only_after_readback_witness:
  "fst (resourceRedshiftSchemaGroupPrivilegeCreate (warehouse (lookups 100) all_succeed None)
          (resource [] [''select'', ''insert'']) []) = Returned None
   \<and> snd (snd (resourceRedshiftSchemaGroupPrivilegeCreate
          (warehouse (lookups 100) all_succeed None) (resource [] [''select'', ''insert'']) []))
       = [] @ [Begin, lookup_schema (resource [] [''select'', ''insert'']),
               lookup_group (resource [] [''select'', ''insert''])]
            @ map (Exec TX) (create_statements (resource [] [''select'', ''insert'']) ''s'' ''g'')
            @ [read_tables (resource [] [''select'', ''insert'']),
               read_schema (resource [] [''select'', ''insert'']), Commit]
   \<and> (\<exists>p. [Begin, lookup_schema (resource [] [''select'', ''insert'']),
          lookup_group (resource [] [''select'', ''insert'']),
          Exec TX ''GRANT SELECT,INSERT ON ALL TABLES IN SCHEMA s TO GROUP g'',
          Exec TX ''ALTER DEFAULT PRIVILEGES IN SCHEMA s GRANT SELECT,INSERT ON TABLES TO GROUP g'',
          read_tables (resource [] [''select'', ''insert'']),
          read_schema (resource [] [''select'', ''insert'']), Commit]
        = [] @ p @ [read_tables (resource [] [''select'', ''insert'']),
                    read_schema (resource [] [''select'', ''insert'']), Commit]
      \<and> hd p = Begin \<and> Commit \<notin> set p \<and> Rollback \<notin> set p
      \<and> exec_ok (warehouse (lookups 100) all_succeed None) [] p)
   \<and> (\<exists>p q e. snd (snd (resourceRedshiftSchemaGroupPrivilegeCreate
                   (warehouse readback_fails all_succeed None)
                   (resource [] [''select'', ''insert'']) []))
          = [] @ p @ [QueryRow TX q [IntArg 100, IntArg 200], Rollback, Rollback]
        \<and> readback_failure (warehouse readback_fails all_succeed None) ([] @ p) q
             [IntArg 100, IntArg 200] = Some e
        \<and> fst (resourceRedshiftSchemaGroupPrivilegeCreate
                   (warehouse readback_fails all_succeed None)
                   (resource [] [''select'', ''insert'']) []) = Returned (Some e)
        \<and> Commit \<notin> set p)"
proof -
  let ?c = "warehouse (lookups 100) all_succeed None"
  let ?c2 = "warehouse readback_fails all_succeed None"
  let ?d = "resource [] [''select'', ''insert'']"
  let ?tr = "[Begin, lookup_schema ?d, lookup_group ?d,
       Exec TX ''GRANT SELECT,INSERT ON ALL TABLES IN SCHEMA s TO GROUP g'',
       Exec TX ''ALTER DEFAULT PRIVILEGES IN SCHEMA s GRANT SELECT,INSERT ON TABLES TO GROUP g'',
       read_tables ?d, read_schema ?d, Commit]"
  let ?tr2 = "[Begin, lookup_schema ?d, lookup_group ?d,
       Exec TX ''GRANT SELECT,INSERT ON ALL TABLES IN SCHEMA s TO GROUP g'',
       Exec TX ''ALTER DEFAULT PRIVILEGES IN SCHEMA s GRANT SELECT,INSERT ON TABLES TO GROUP g'',
       read_tables ?d, Rollback, Rollback]"
  let ?p = "[Begin, lookup_schema ?d, lookup_group ?d] @ map (Exec TX) (create_statements ?d ''s'' ''g'')"
  obtain d1 where run: "resourceRedshiftSchemaGroupPrivilegeCreate ?c ?d [] = (Returned None, d1, ?tr)"
    by (cases "resourceRedshiftSchemaGroupPrivilegeCreate ?c ?d []")
       (simp add: hooks Let_def SetId_def Set_bool_def)
  have h2: "on_begin ?c [] = None" by simp
  have h3: "\<not> no_privileges ?d" by (simp add: no_privileges_def all_flags_def)
  have h4: "schema_lookup ?c ?d ([] @ [Begin]) = Inr (''s'', 100)"
    by (simp add: schema_lookup_def lookups_def)
  have h5: "(100::int) \<noteq> 1" by simp
  have h6: "group_lookup ?c ?d ([] @ [Begin, lookup_schema ?d]) = Inr ''g''"
    by (simp add: group_lookup_def lookups_def)
  have h7: "exec_ok ?c [] (drop (length ([]::call list)) ?tr)" by (simp add: all_succeed_def)
  have h8: "accepted (tables_reply ?c ?d ([] @ ?p))"
    by (simp add: tables_reply_def lookups_def accepted_def create_statements_def
          true_table_privileges_def true_schema_privileges_def table_flags_def)
  have h9: "accepted (schema_reply ?c ?d ([] @ ?p @ [read_tables ?d]))"
    by (simp add: schema_reply_def lookups_def accepted_def create_statements_def
          true_table_privileges_def true_schema_privileges_def table_flags_def)
  have committed: "Commit \<in> set (drop (length ([]::call list)) ?tr)" by simp
  obtain d2 where run2: "resourceRedshiftSchemaGroupPrivilegeCreate ?c2 ?d []
      = (Returned (Some (SqlError ''connection reset'')), d2, ?tr2)"
    by (cases "resourceRedshiftSchemaGroupPrivilegeCreate ?c2 ?d []")
       (simp add: hooks Let_def SetId_def Set_bool_def readback_fails_def)
  have failed: "\<not> readback_ok ?c2 [] (drop (length ([]::call list)) ?tr2)"
    by (simp add: readback_failure_lookup readback_failure_def real_error_def
          readback_fails_def)
  note at_success = create_commits_only_after_readback [OF run, of "''s''" 100 "''g''"]
  note at_failure = create_commits_only_after_readback [OF run2, of "''s''" 100 "''g''"]
  from at_success h2 h3 h4 h5 h6 h7 h8 h9 have
    a: "?tr = [] @ ?p @ [read_tables ?d, read_schema ?d, Commit]"
    by (simp only: append_assoc) blast
  from at_success committed have
    b: "\<exists>p. ?tr = [] @ p @ [read_tables ?d, read_schema ?d, Commit] \<and> hd p = Begin
          \<and> Commit \<notin> set p \<and> Rollback \<notin> set p \<and> exec_ok ?c [] p"
    by blast
  from at_failure failed have
    c: "\<exists>p q e. ?tr2 = [] @ p @ [QueryRow TX q [IntArg (schema_id ?d), IntArg (group_id ?d)],
                                Rollback, Rollback]
          \<and> readback_failure ?c2 ([] @ p) q [IntArg (schema_id ?d), IntArg (group_id ?d)] = Some e
          \<and> Returned (Some (SqlError ''connection reset'')) = Returned (Some e)
          \<and> Commit \<notin> set p"
    by blast
  from a b c run run2 show ?thesis by (simp del: append.simps)
qed

text \<open>
  The claim as first stated includes Update. Update commits right after its last
  statement: its trace has no read-back query.
\<close>

theorem update_commits_without_readback:
  "resourceRedshiftSchemaGroupPrivilegeUpdate
       (warehouse (lookups 100) all_succeed None)
       (resource [''delete''] [''select'', ''usage'']) []
     = (Returned None, resource [''delete''] [''select'', ''usage''],
        [Begin, lookup_schema (resource [''delete''] [''select'', ''usage'']),
         lookup_group (resource [''delete''] [''select'', ''usage'']),
         Exec TX ''GRANT SELECT ON ALL TABLES IN SCHEMA s TO  GROUP g'',
         Exec TX ''ALTER DEFAULT PRIVILEGES IN SCHEMA s GRANT SELECT ON TABLES TO GROUP g'',
         Exec TX ''REVOKE DELETE ON ALL TABLES IN SCHEMA s FROM GROUP g'',
         Exec TX ''ALTER DEFAULT PRIVILEGES IN SCHEMA s REVOKE DELETE ON TABLES FROM GROUP g'',
         Exec TX ''GRANT USAGE ON SCHEMA s TO  GROUP g'', Commit])"
  by (simp add: hooks)

section \<open>Applying the same privileges again\<close>

text \<open>
  Claim C7. When the recorded state equals the desired privilege set, Update finds no
  changed flag and executes no statement, whatever the warehouse answers.
\<close>

theorem reapplied_update_emits_nothing:
  assumes "\<forall>k \<in> set all_flags. prior d k = planned d k"
  shows "(\<forall>k \<in> set all_flags. \<not> HasChange d k)
       \<and> execs (snd (snd (resourceRedshiftSchemaGroupPrivilegeUpdate c d tr))) = execs tr"
proof -
  have "execs (snd (snd (resourceRedshiftSchemaGroupPrivilegeUpdate c d tr))) = execs tr"
  proof (cases rule: Update_cases [where c = c and d = d and tr = tr])
    case (statement_failed s owner g ps q rest e)
    with unchanged_no_statements [OF assms, of s g] show ?thesis by simp
  next
    case (committed s owner g)
    with unchanged_no_statements [OF assms, of s g] show ?thesis by (simp add: execs_append)
  qed (simp_all add: execs_append)
  with assms show ?thesis by (simp add: HasChange_def)
qed

theorem reapplied_update_emits_nothing_witness:
  "execs (snd (snd (resourceRedshiftSchemaGroupPrivilegeUpdate
       (warehouse (lookups 100) all_succeed None)
       (resource [''select'', ''usage''] [''select'', ''usage'']) []))) = []
   \<and> \<not> HasChange (resource [''select'', ''usage''] [''select'', ''usage'']) ''select''
   \<and> snd (snd (resourceRedshiftSchemaGroupPrivilegeUpdate
       (warehouse (lookups 100) all_succeed None)
       (resource [''select'', ''usage''] [''select'', ''usage'']) []))
      = [Begin, lookup_schema (resource [''select'', ''usage''] [''select'', ''usage'']),
         lookup_group (resource [''select'', ''usage''] [''select'', ''usage'']), Commit]"
proof -
  let ?d = "resource [''select'', ''usage''] [''select'', ''usage'']"
  have h: "\<forall>k \<in> set all_flags. prior ?d k = planned ?d k" by (simp add: resource_def)
  have t: "snd (snd (resourceRedshiftSchemaGroupPrivilegeUpdate
       (warehouse (lookups 100) all_succeed None) ?d []))
      = [Begin, lookup_schema ?d, lookup_group ?d, Commit]"
    by (simp add: hooks)
  from reapplied_update_emits_nothing [OF h, of "warehouse (lookups 100) all_succeed None" "[]"] t
  show ?thesis by (simp add: all_flags_def)
qed

section \<open>Reading privileges that are not there\<close>

text \<open>
  Claim C8. When both privilege queries find no row, the read succeeds, sets all seven
  flags to false and does not roll back. The read fails exactly when one of the two
  queries fails with an error other than \<open>ErrNoRows\<close>; it then returns that error after
  rolling back.
\<close>

theorem read_missing_rows_mean_false_flags:
  "(tables_reply c d tr = Inl ErrNoRows
      \<and> schema_reply c d (tr @ [read_tables d]) = Inl ErrNoRows \<longrightarrow>
        fst (readRedshiftSchemaGroupPrivilege c d tr) = None
      \<and> (\<forall>k \<in> set all_flags.
            \<not> Get_bool (fst (snd (readRedshiftSchemaGroupPrivilege c d tr))) k)
      \<and> snd (snd (readRedshiftSchemaGroupPrivilege c d tr))
          = tr @ [read_tables d, read_schema d])
   \<and> (\<forall>e. fst (readRedshiftSchemaGroupPrivilege c d tr) = Some e \<longleftrightarrow>
          (tables_reply c d tr = Inl e \<and> e \<noteq> ErrNoRows)
        \<or> (accepted (tables_reply c d tr)
            \<and> schema_reply c d (tr @ [read_tables d]) = Inl e \<and> e \<noteq> ErrNoRows))
   \<and> (fst (readRedshiftSchemaGroupPrivilege c d tr) \<noteq> None \<longrightarrow>
        last (snd (snd (readRedshiftSchemaGroupPrivilege c d tr))) = Rollback)"
  by (auto simp add: readRedshiftSchemaGroupPrivilege_def prims scanned_or_zero_def accepted_def
        tables_reply_def schema_reply_def Set_bool_get all_flags_def
        split: sum.splits prod.splits)

theorem read_missing_rows_mean_false_flags_witness:
  "fst (readRedshiftSchemaGroupPrivilege (warehouse (\<lambda>n. Inl ErrNoRows) all_succeed None)
          (resource [] [''select'', ''usage'']) []) = None
   \<and> filter (Get_bool (fst (snd (readRedshiftSchemaGroupPrivilege
          (warehouse (\<lambda>n. Inl ErrNoRows) all_succeed None)
          (resource [] [''select'', ''usage'']) [])))) all_flags = []
   \<and> fst (readRedshiftSchemaGroupPrivilege (warehouse schema_read_fails all_succeed None)
          (resource [] [''select'', ''usage'']) []) = Some (SqlError ''connection reset'')
   \<and> last (snd (snd (readRedshiftSchemaGroupPrivilege
          (warehouse schema_read_fails all_succeed None)
          (resource [] [''select'', ''usage'']) []))) = Rollback"
proof -
  let ?c = "warehouse (\<lambda>n. Inl ErrNoRows) all_succeed None"
  let ?c2 = "warehouse schema_read_fails all_succeed None"
  let ?d = "resource [] [''select'', ''usage'']"
  have h1: "tables_reply ?c ?d [] = Inl ErrNoRows"
    "schema_reply ?c ?d ([] @ [read_tables ?d]) = Inl ErrNoRows"
    by (simp_all add: tables_reply_def schema_reply_def)
  have h2: "accepted (tables_reply ?c2 ?d [])"
    "schema_reply ?c2 ?d ([] @ [read_tables ?d]) = Inl (SqlError ''connection reset'')"
    by (simp_all add: tables_reply_def schema_reply_def schema_read_fails_def accepted_def)
  have h3: "tables_reply ?c2 ?d [] = Inl ErrNoRows"
    by (simp add: tables_reply_def schema_read_fails_def)
  note at_missing = read_missing_rows_mean_false_flags [of ?c ?d "[]"]
  note at_failure = read_missing_rows_mean_false_flags [of ?c2 ?d "[]"]
  from at_missing h1 have
    a: "fst (readRedshiftSchemaGroupPrivilege ?c ?d []) = None"
       "\<forall>k \<in> set all_flags. \<not> Get_bool (fst (snd (readRedshiftSchemaGroupPrivilege ?c ?d []))) k"
    by blast+
  from at_failure h2 have
    b: "fst (readRedshiftSchemaGroupPrivilege ?c2 ?d []) = Some (SqlError ''connection reset'')"
    by blast
  with at_failure have
    c: "last (snd (snd (readRedshiftSchemaGroupPrivilege ?c2 ?d []))) = Rollback"
    by simp
  from a b c show ?thesis by (simp add: filter_empty_conv)
qed

section \<open>The identifier of an association\<close>

text \<open>
  Claim C9. After a successful Create the identifier is the decimal schema_id, an
  underscore and the decimal group_id. Read, Update and Delete leave the identifier as it
  is. The Exists hook passes the identifier as the one parameter of its query, whose text
  compares it with \<open>nsp.oid || '_' || pu.grosysid\<close>.
\<close>

theorem identifier_is_schema_underscore_group:
  "(resourceRedshiftSchemaGroupPrivilegeCreate c d tr = (Returned None, d', tr') \<longrightarrow>
      res_id d' = Sprint (schema_id d) @ ''_'' @ Sprint (group_id d))
   \<and> res_id (fst (snd (resourceRedshiftSchemaGroupPrivilegeRead c d tr))) = res_id d
   \<and> res_id (fst (snd (resourceRedshiftSchemaGroupPrivilegeUpdate c d tr))) = res_id d
   \<and> res_id (fst (snd (resourceRedshiftSchemaGroupPrivilegeDelete c d tr))) = res_id d
   \<and> snd (resourceRedshiftSchemaGroupPrivilegeExists c d tr)
       = tr @ [QueryRow DB privilegeExistenceQuery [StrArg (res_id d)]]
   \<and> (\<exists>a b. privilegeExistenceQuery = a @ identifier_comparison @ b)"
proof -
  have "snd (resourceRedshiftSchemaGroupPrivilegeExists c d tr)
       = tr @ [QueryRow DB privilegeExistenceQuery [StrArg (res_id d)]]"
    by (simp add: resourceRedshiftSchemaGroupPrivilegeExists_def Query_Row_def
          split: sum.splits)
  then show ?thesis
    using Create_sets_id [of c d tr d' tr'] Read_keeps_id [of c d tr] Update_keeps_id [of c d tr]
      Delete_keeps_data [of c d tr] existence_query_compares_identifier
    by simp
qed

theorem identifier_is_schema_underscore_group_witness:
  "res_id (fst (snd (resourceRedshiftSchemaGroupPrivilegeCreate
       (warehouse (lookups 100) all_succeed None) (unsaved [''select'', ''insert'']) [])))
     = ''100_200''
   \<and> fst (resourceRedshiftSchemaGroupPrivilegeCreate
       (warehouse (lookups 100) all_succeed None) (unsaved [''select'', ''insert'']) [])
     = Returned None"
proof -
  let ?c = "warehouse (lookups 100) all_succeed None"
  let ?d = "unsaved [''select'', ''insert'']"
  obtain d' tr' where run: "resourceRedshiftSchemaGroupPrivilegeCreate ?c ?d [] = (Returned None, d', tr')"
    by (cases "resourceRedshiftSchemaGroupPrivilegeCreate ?c ?d []")
       (simp add: hooks Let_def SetId_def Set_bool_def Get_bool_def resource_def unsaved_def)
  from identifier_is_schema_underscore_group [of ?c ?d "[]" d' tr'] run
  show ?thesis by (simp add: Sprint_def decimal.simps digit_char_def unsaved_def)
qed

section \<open>The Exists hooks\<close>

text \<open>
  Claim C10. For every identifier, the Exists hooks of the schema resource and of the
  schema-group privilege resource return (false, nil) when the existence query finds no
  row, (false, the error) when the query or its scan fails with any other error, and
  (true, nil) when a row is found: a vanished resource is reported as absent, not as an
  error.
\<close>

theorem exists_hooks_absent_error_found:
  "(on_query c tr schemaExistenceQuery [StrArg (res_id d)] = Inl ErrNoRows
      \<longrightarrow> fst (resourceRedshiftSchemaExists c d tr) = (False, None))
   \<and> (\<forall>e. Scan_string (on_query c tr schemaExistenceQuery [StrArg (res_id d)]) = Inl e
           \<and> e \<noteq> ErrNoRows
      \<longrightarrow> fst (resourceRedshiftSchemaExists c d tr) = (False, Some e))
   \<and> (\<forall>name. Scan_string (on_query c tr schemaExistenceQuery [StrArg (res_id d)]) = Inr name
      \<longrightarrow> fst (resourceRedshiftSchemaExists c d tr) = (True, None))
   \<and> (on_query c tr privilegeExistenceQuery [StrArg (res_id d)] = Inl ErrNoRows
      \<longrightarrow> fst (resourceRedshiftSchemaGroupPrivilegeExists c d tr) = (False, None))
   \<and> (\<forall>e. Scan_string (on_query c tr privilegeExistenceQuery [StrArg (res_id d)]) = Inl e
           \<and> e \<noteq> ErrNoRows
      \<longrightarrow> fst (resourceRedshiftSchemaGroupPrivilegeExists c d tr) = (False, Some e))
   \<and> (\<forall>name. Scan_string (on_query c tr privilegeExistenceQuery [StrArg (res_id d)]) = Inr name
      \<longrightarrow> fst (resourceRedshiftSchemaGroupPrivilegeExists c d tr) = (True, None))"
  by (simp add: resourceRedshiftSchemaExists_def resourceRedshiftSchemaGroupPrivilegeExists_def
        Query_Row_def)

theorem exists_hooks_absent_error_found_witness:
  "fst (resourceRedshiftSchemaExists (warehouse (\<lambda>n. Inl ErrNoRows) all_succeed None)
          (resource [] []) []) = (False, None)
   \<and> fst (resourceRedshiftSchemaExists
            (warehouse (\<lambda>n. Inl (SqlError ''connection reset'')) all_succeed None)
            (resource [] []) []) = (False, Some (SqlError ''connection reset''))
   \<and> fst (resourceRedshiftSchemaExists (warehouse (\<lambda>n. Inr [StrVal ''s'']) all_succeed None)
            (resource [] []) []) = (True, None)
   \<and> fst (resourceRedshiftSchemaGroupPrivilegeExists
            (warehouse (\<lambda>n. Inl ErrNoRows) all_succeed None) (resource [] []) [])
       = (False, None)
   \<and> fst (resourceRedshiftSchemaGroupPrivilegeExists
            (warehouse (\<lambda>n. Inl (SqlError ''connection reset'')) all_succeed None)
            (resource [] []) []) = (False, Some (SqlError ''connection reset''))
   \<and> fst (resourceRedshiftSchemaGroupPrivilegeExists
            (warehouse (\<lambda>n. Inr [StrVal ''100_200'']) all_succeed None) (resource [] []) [])
       = (True, None)"
  using exists_hooks_absent_error_found
          [of "warehouse (\<lambda>n. Inl ErrNoRows) all_succeed None" "[]" "resource [] []"]
        exists_hooks_absent_error_found
          [of "warehouse (\<lambda>n. Inl (SqlError ''connection reset'')) all_succeed None" "[]"
              "resource [] []"]
        exists_hooks_absent_error_found
          [of "warehouse (\<lambda>n. Inr [StrVal ''s'']) all_succeed None" "[]" "resource [] []"]
        exists_hooks_absent_error_found
          [of "warehouse (\<lambda>n. Inr [StrVal ''100_200'']) all_succeed None" "[]" "resource [] []"]
  by (simp add: warehouse_def)

end
